theory Spec2Isabelle
  imports Main
begin

section \<open>Python values, dictionaries and run-time errors\<close>

text \<open>
  The arguments of \<^verbatim>\<open>create_sp_doc\<close> are Python strings (or \<^verbatim>\<open>None\<close>), lists of
  dictionaries with string keys, one dictionary of string lists, an integer and a flag.
  A string is a \<^typ>\<open>string\<close>; a character outside ASCII is written as its UTF-8 bytes.
\<close>

datatype pyval = PNone | PStr string

type_synonym pydict = "(string \<times> pyval) list"

text \<open>
  The function has no \<^verbatim>\<open>raise\<close> of its own. What can go wrong is what Python and
  python-docx raise underneath it: \<^verbatim>\<open>d[k]\<close> on an absent key, \<^verbatim>\<open>p.runs[0]\<close> on a
  paragraph without runs, and \<^verbatim>\<open>str + None\<close> or a cell text of \<^verbatim>\<open>None\<close>.
\<close>

datatype error = KeyError string | IndexError | TypeError

definition andthen :: "error + 'a \<Rightarrow> ('a \<Rightarrow> error + 'b) \<Rightarrow> error + 'b" where
  "andthen m f = (case m of Inl e \<Rightarrow> Inl e | Inr v \<Rightarrow> f v)"

text \<open>Truth value of a string or \<^verbatim>\<open>None\<close> in a condition.\<close>

fun truthy :: "pyval \<Rightarrow> bool" where
  "truthy PNone = False"
| "truthy (PStr s) = (s \<noteq> [])"

text \<open>\<^verbatim>\<open>f"{x}"\<close>: the \<^verbatim>\<open>str\<close> of a value.\<close>

fun fmt :: "pyval \<Rightarrow> string" where
  "fmt PNone = ''None''"
| "fmt (PStr s) = s"

text \<open>\<^verbatim>\<open>d[k]\<close> and \<^verbatim>\<open>k in d\<close>.\<close>

definition getitem :: "pydict \<Rightarrow> string \<Rightarrow> error + pyval" where
  "getitem d k = (case map_of d k of None \<Rightarrow> Inl (KeyError k) | Some v \<Rightarrow> Inr v)"

definition has_key :: "string \<Rightarrow> (string \<times> 'v) list \<Rightarrow> bool" where
  "has_key k d = (map_of d k \<noteq> None)"

text \<open>\<^verbatim>\<open>str\<close> of an integer, as the f-strings print counters and the score.\<close>

fun str_nat :: "nat \<Rightarrow> string" where
  "str_nat n = (if n < 10 then [''0123456789'' ! n]
                else str_nat (n div 10) @ [''0123456789'' ! (n mod 10)])"

declare str_nat.simps [simp del]

definition str_int :: "int \<Rightarrow> string" where
  "str_int i = (if i < 0 then ''-'' @ str_nat (nat (- i)) else str_nat (nat i))"

section \<open>The document\<close>

text \<open>
  A python-docx document body is the sequence of the paragraphs and tables added to it.
  The formatting statements of the source tell the kinds of paragraph apart (a 14pt bold
  section heading, what \<^verbatim>\<open>add_subheader\<close>, \<^verbatim>\<open>add_code_block\<close> and \<^verbatim>\<open>add_divider\<close>
  build, a paragraph of style List Bullet, a plain paragraph); the model keeps the kind
  and the text. The borderless table at the top holds the title lines in its left cell
  and the metadata lines (label run, value run, colour of the value) in its right cell.
\<close>

datatype rgb = RGB nat nat nat

datatype block =
    HeaderTable (title_lines: "string list") (metadata_lines: "(string \<times> string \<times> rgb) list")
  | Divider
  | Heading string
  | Subheader string
  | Para string
  | Bullet string
  | CodeBlock string
  | Table "string list list"

type_synonym document = "block list"

definition add_divider :: "document \<Rightarrow> document" where
  "add_divider doc = doc @ [Divider]"

definition add_subheader :: "document \<Rightarrow> string \<Rightarrow> document" where
  "add_subheader doc text = doc @ [Subheader text]"

text \<open>\<^verbatim>\<open>p.add_run(text)\<close> gives the run a text only if \<^verbatim>\<open>text\<close> is truthy.\<close>

fun run_text :: "pyval \<Rightarrow> string" where
  "run_text PNone = []"
| "run_text (PStr s) = s"

definition add_code_block :: "document \<Rightarrow> pyval \<Rightarrow> document" where
  "add_code_block doc code = doc @ [CodeBlock (run_text code)]"

definition add_heading :: "document \<Rightarrow> string \<Rightarrow> document" where
  "add_heading doc text = doc @ [Heading text]"

text \<open>
  \<^verbatim>\<open>p = doc.add_paragraph(text)\<close> followed by \<^verbatim>\<open>p.runs[0].font.size = ...\<close>.
  python-docx's \<^verbatim>\<open>add_paragraph\<close> appends a run holding \<^verbatim>\<open>text\<close> only if \<^verbatim>\<open>text\<close> is
  truthy, so the new paragraph has one run or none, and \<^verbatim>\<open>runs[0]\<close> raises IndexError
  on the empty list.
\<close>

definition paragraph_runs :: "pyval \<Rightarrow> string list" where
  "paragraph_runs text = (if truthy text then [fmt text] else [])"

definition run0 :: "string list \<Rightarrow> error + string" where
  "run0 rs = (case rs of [] \<Rightarrow> Inl IndexError | r # _ \<Rightarrow> Inr r)"

definition add_paragraph :: "document \<Rightarrow> pyval \<Rightarrow> error + document" where
  "add_paragraph doc text = andthen (run0 (paragraph_runs text)) (\<lambda>r. Inr (doc @ [Para r]))"

text \<open>
  \<^verbatim>\<open>p = doc.add_paragraph(text, style='List Bullet')\<close> followed by \<^verbatim>\<open>p.runs[0]\<close>: the
  same, in the bullet style.
\<close>

definition add_bullet_paragraph :: "document \<Rightarrow> pyval \<Rightarrow> error + document" where
  "add_bullet_paragraph doc text =
     andthen (run0 (paragraph_runs text)) (\<lambda>r. Inr (doc @ [Bullet r]))"

text \<open>A \<^verbatim>\<open>for\<close> loop whose body appends to the document or raises.\<close>

fun for_each :: "('a \<Rightarrow> document \<Rightarrow> error + document) \<Rightarrow> 'a list \<Rightarrow> document \<Rightarrow> error + document" where
  "for_each body [] doc = Inr doc"
| "for_each body (x # xs) doc = andthen (body x doc) (for_each body xs)"

section \<open>The arguments of \<^verbatim>\<open>create_sp_doc\<close>\<close>

datatype logic_flow = Steps "pydict list" | Narrative pyval

record sp_args =
  spName :: pyval
  version :: pyval
  createdDate :: pyval
  createdBy :: pyval
  schema :: pyval
  objectType :: pyval
  purpose :: pyval
  recentChanges :: "pydict list"
  whatsNew :: pyval
  parameters :: "pydict list"
  logicFlow :: logic_flow
  dependencies :: "(string \<times> string list) list option"
  usageExamples :: "pydict list"
  performanceNotes :: pyval
  errorHandling :: pyval
  fullVersionHistory :: "pydict list"
  complexityScore :: int
  isQA :: bool

section \<open>\<^verbatim>\<open>create_sp_doc\<close>, part by part\<close>

text \<open>Lines 60 to 129: the title block and the metadata panel.\<close>

definition grey :: rgb where "grey = RGB 73 80 87"

definition header_table :: "sp_args \<Rightarrow> block" where
  "header_table a =
     (let doc_title = (if isQA a then ''QA STORED PROCEDURE'' else ''STORED PROCEDURE'');
          qa_label = (if isQA a then ''QA Procedure'' else ''Production'');
          metadata =
            [(''Version: '', ''v'' @ fmt (version a), grey),
             (''Type: '', qa_label, if isQA a then RGB 40 167 69 else grey),
             (''Created: '', run_text (createdDate a), grey),
             (''Created By: '', run_text (createdBy a), grey),
             (''Complexity: '', str_int (complexityScore a) @ ''/100'', grey)]
      in HeaderTable
           [doc_title, ''Technical Documentation'', fmt (schema a) @ ''.'' @ fmt (spName a)]
           metadata)"

text \<open>Lines 133 to 155: the five most recent changes, or a placeholder.\<close>

definition recent_change :: "pydict \<Rightarrow> document \<Rightarrow> error + document" where
  "recent_change change doc =
     andthen (getitem change ''date'') (\<lambda>d.
     andthen (getitem change ''summary'') (\<lambda>s.
     andthen (getitem change ''refDoc'') (\<lambda>r.
       Inr (doc @ [Bullet (fmt d @ '' - '' @ fmt s @ '' ('' @ fmt r @ '')'')]))))"

definition recent_changes_part :: "pydict list \<Rightarrow> document \<Rightarrow> error + document" where
  "recent_changes_part changes doc0 =
     (let doc = add_heading doc0 ''5 MOST RECENT CHANGES'' in
      if changes \<noteq> [] then for_each recent_change (take 5 changes) doc
      else add_paragraph doc (PStr ''No changes recorded yet.''))"

text \<open>Lines 159 to 174: section 1, the purpose, behind a fixed sentence in QA mode.\<close>

definition qa_purpose_intro :: string where
  "qa_purpose_intro =
     ''This is a QA validation procedure designed to verify data quality and integrity. ''"

text \<open>\<^verbatim>\<open>qa_purpose_intro + purpose\<close>: a string plus \<^verbatim>\<open>None\<close> is a TypeError.\<close>

fun concat_str :: "string \<Rightarrow> pyval \<Rightarrow> error + pyval" where
  "concat_str s PNone = Inl TypeError"
| "concat_str s (PStr t) = Inr (PStr (s @ t))"

definition purpose_part :: "bool \<Rightarrow> pyval \<Rightarrow> document \<Rightarrow> error + document" where
  "purpose_part qa text doc0 =
     (let doc = add_heading doc0 ''1. PURPOSE'' in
      if qa then andthen (concat_str qa_purpose_intro text) (add_paragraph doc)
      else add_paragraph doc text)"

text \<open>
  Lines 178 to 196: section 2, only for a truthy \<^verbatim>\<open>whatsNew\<close>; it also fixes the number
  of the next section.
\<close>

definition whats_new_part :: "pyval \<Rightarrow> pyval \<Rightarrow> document \<Rightarrow> error + document \<times> nat" where
  "whats_new_part new ver doc0 =
     (if truthy new then
        (let doc = add_heading doc0 (''2. WHAT'S NEW IN VERSION '' @ fmt ver);
             doc = add_subheader doc ''Changes in This Version:''
         in andthen (add_paragraph doc new) (\<lambda>doc. Inr (add_divider doc, 3)))
      else Inr (doc0, 2))"

text \<open>Lines 198 to 222: the parameters, or a placeholder.\<close>

definition parameter :: "pydict \<Rightarrow> document \<Rightarrow> error + document" where
  "parameter param doc0 =
     andthen (getitem param ''name'') (\<lambda>n.
     andthen (getitem param ''type'') (\<lambda>t.
     let doc = add_subheader doc0 (fmt n @ '' ('' @ fmt t @ ''):'') in
     andthen (getitem param ''description'') (\<lambda>d.
     andthen (add_paragraph doc (PStr (fmt d))) (\<lambda>doc.
       if has_key ''defaultValue'' param then
         andthen (getitem param ''defaultValue'') (\<lambda>v.
           if truthy v then add_paragraph doc (PStr (''Default: '' @ fmt v)) else Inr doc)
       else Inr doc))))"

definition parameters_part :: "nat \<Rightarrow> pydict list \<Rightarrow> document \<Rightarrow> error + document" where
  "parameters_part section_num params doc0 =
     (let doc = add_heading doc0 (str_nat section_num @ ''. PARAMETERS'') in
      if params \<noteq> [] then for_each parameter params doc
      else add_paragraph doc (PStr ''No parameters''))"

text \<open>Lines 227 to 245: the logic flow, numbered steps or one paragraph.\<close>

definition logic_step :: "nat \<times> pydict \<Rightarrow> document \<Rightarrow> error + document" where
  "logic_step = (\<lambda>(i, step) doc0.
     andthen (getitem step ''title'') (\<lambda>t.
     let doc = add_subheader doc0 (''Step '' @ str_nat i @ '': '' @ fmt t) in
     andthen (getitem step ''description'') (add_paragraph doc)))"

definition logic_flow_part :: "nat \<Rightarrow> logic_flow \<Rightarrow> document \<Rightarrow> error + document" where
  "logic_flow_part section_num flow doc0 =
     (let doc = add_heading doc0 (str_nat section_num @ ''. LOGIC FLOW'') in
      case flow of
        Steps steps \<Rightarrow> for_each logic_step (enumerate 1 steps) doc
      | Narrative text \<Rightarrow> add_paragraph doc text)"

text \<open>
  Lines 250 to 275: the dependencies, behind \<^verbatim>\<open>complexityScore > 30 and dependencies\<close>.
  A dictionary is truthy when it has a key. The bullet texts start with U+2022.
\<close>

definition bullet_char :: string where
  "bullet_char = [CHR 0xE2, CHR 0x80, CHR 0xA2]"

definition dependency :: "string \<Rightarrow> document \<Rightarrow> error + document" where
  "dependency name doc = add_bullet_paragraph doc (PStr (bullet_char @ '' '' @ name))"

fun dict_truthy :: "(string \<times> 'v) list option \<Rightarrow> bool" where
  "dict_truthy None = False"
| "dict_truthy (Some d) = (d \<noteq> [])"

definition dependency_list :: "string \<Rightarrow> string \<Rightarrow> (string \<times> string list) list \<Rightarrow> document \<Rightarrow> error + document" where
  "dependency_list key title deps doc0 =
     (if has_key key deps \<and> the (map_of deps key) \<noteq> [] then
        for_each dependency (the (map_of deps key)) (add_subheader doc0 title)
      else Inr doc0)"

definition dependencies_part ::
  "int \<Rightarrow> (string \<times> string list) list option \<Rightarrow> nat \<Rightarrow> document \<Rightarrow> error + document \<times> nat" where
  "dependencies_part score deps section_num doc0 =
     (if score > 30 \<and> dict_truthy deps then
        (let doc = add_heading doc0 (str_nat section_num @ ''. DEPENDENCIES'') in
         andthen (dependency_list ''tables'' ''Tables Accessed:'' (the deps) doc) (\<lambda>doc.
         andthen (dependency_list ''procedures'' ''Stored Procedures Called:'' (the deps) doc) (\<lambda>doc.
           Inr (add_divider doc, section_num + 1))))
      else Inr (doc0, section_num))"

text \<open>Lines 277 to 294: the usage examples; nothing under the heading when there are none.\<close>

definition usage_example :: "nat \<times> pydict \<Rightarrow> document \<Rightarrow> error + document" where
  "usage_example = (\<lambda>(i, example) doc0.
     andthen (getitem example ''title'') (\<lambda>t.
     let doc = add_subheader doc0 (''Example '' @ str_nat i @ '': '' @ fmt t) in
     andthen (getitem example ''code'') (\<lambda>c.
     let doc = add_code_block doc c in
     if has_key ''explanation'' example then
       andthen (getitem example ''explanation'') (add_paragraph doc)
     else Inr doc)))"

definition usage_examples_part :: "nat \<Rightarrow> pydict list \<Rightarrow> document \<Rightarrow> error + document" where
  "usage_examples_part section_num examples doc0 =
     (let doc = add_heading doc0 (str_nat section_num @ ''. USAGE EXAMPLES'') in
      if examples \<noteq> [] then for_each usage_example (enumerate 1 examples) doc
      else Inr doc)"

text \<open>
  Lines 299 to 329: performance notes and error handling, each behind a score threshold
  and a truthy text.
\<close>

definition prose_part :: "bool \<Rightarrow> string \<Rightarrow> pyval \<Rightarrow> nat \<Rightarrow> document \<Rightarrow> error + document \<times> nat" where
  "prose_part gate title text section_num doc0 =
     (if gate \<and> truthy text then
        (let doc = add_heading doc0 (str_nat section_num @ ''. '' @ title) in
         andthen (add_paragraph doc text) (\<lambda>doc. Inr (add_divider doc, section_num + 1)))
      else Inr (doc0, section_num))"

text \<open>
  Lines 331 to 362: the version history. The table exists only for a non-empty history.
  A cell text of \<^verbatim>\<open>None\<close> is a TypeError in python-docx.
\<close>

fun cell_text :: "pyval \<Rightarrow> error + string" where
  "cell_text PNone = Inl TypeError"
| "cell_text (PStr s) = Inr s"

definition history_row :: "pydict \<Rightarrow> error + string list" where
  "history_row entry =
     andthen (getitem entry ''version'') (\<lambda>v.
     andthen (andthen (getitem entry ''date'') cell_text) (\<lambda>d.
     andthen (andthen (getitem entry ''changedBy'') cell_text) (\<lambda>b.
     andthen (getitem entry ''refDoc'') (\<lambda>r.
     andthen (getitem entry ''changes'') (\<lambda>c.
     andthen (if truthy r then Inr (fmt c @ '' (Ref: '' @ fmt r @ '')'') else cell_text c) (\<lambda>ch.
       Inr [''v'' @ fmt v, d, b, ch]))))))"

fun history_rows :: "pydict list \<Rightarrow> error + string list list" where
  "history_rows [] = Inr []"
| "history_rows (entry # entries) =
     andthen (history_row entry) (\<lambda>row.
     andthen (history_rows entries) (\<lambda>rows. Inr (row # rows)))"

definition history_part :: "nat \<Rightarrow> pydict list \<Rightarrow> document \<Rightarrow> error + document" where
  "history_part section_num history doc0 =
     (let doc = add_heading doc0 (str_nat section_num @ ''. FULL VERSION HISTORY'') in
      if history \<noteq> [] then
        andthen (history_rows history) (\<lambda>rows.
          Inr (doc @ [Table ([''Version'', ''Date'', ''Changed By'', ''Changes''] # rows)]))
      else Inr doc)"

text \<open>The whole function, lines 49 to 364.\<close>

definition create_sp_doc :: "sp_args \<Rightarrow> error + document" where
  "create_sp_doc a =
     (let doc = [header_table a];
          doc = add_divider doc
      in
      andthen (recent_changes_part (recentChanges a) doc) (\<lambda>doc.
      let doc = add_divider doc in
      andthen (purpose_part (isQA a) (purpose a) doc) (\<lambda>doc.
      let doc = add_divider doc in
      andthen (whats_new_part (whatsNew a) (version a) doc) (\<lambda>(doc, section_num).
      andthen (parameters_part section_num (parameters a) doc) (\<lambda>doc.
      let doc = add_divider doc; section_num = section_num + 1 in
      andthen (logic_flow_part section_num (logicFlow a) doc) (\<lambda>doc.
      let doc = add_divider doc; section_num = section_num + 1 in
      andthen (dependencies_part (complexityScore a) (dependencies a) section_num doc)
        (\<lambda>(doc, section_num).
      andthen (usage_examples_part section_num (usageExamples a) doc) (\<lambda>doc.
      let doc = add_divider doc; section_num = section_num + 1 in
      andthen (prose_part (complexityScore a > 50) ''PERFORMANCE NOTES'' (performanceNotes a)
                 section_num doc) (\<lambda>(doc, section_num).
      andthen (prose_part (complexityScore a > 40) ''ERROR HANDLING'' (errorHandling a)
                 section_num doc) (\<lambda>(doc, section_num).
      history_part section_num (fullVersionHistory a) doc))))))))))"

section \<open>Reading a document\<close>

text \<open>
  A numbered section heading reads \<^verbatim>\<open>"<number>. <TITLE>"\<close>. The title block and the
  heading of the recent changes carry no number.
\<close>

definition is_digit :: "char \<Rightarrow> bool" where
  "is_digit c = (c \<in> set ''0123456789'')"

definition digit_val :: "char \<Rightarrow> nat" where
  "digit_val c = of_char c - 48"

definition digits_value :: "string \<Rightarrow> nat" where
  "digits_value ds = foldl (\<lambda>acc c. 10 * acc + digit_val c) 0 ds"

definition parse_heading :: "string \<Rightarrow> (nat \<times> string) option" where
  "parse_heading h =
     (let ds = takeWhile is_digit h; rest = dropWhile is_digit h in
      if ds \<noteq> [] \<and> take 2 rest = ''. '' then Some (digits_value ds, drop 2 rest) else None)"

fun numbered_sections :: "document \<Rightarrow> (nat \<times> string) list" where
  "numbered_sections [] = []"
| "numbered_sections (Heading h # bs) =
     (case parse_heading h of Some s \<Rightarrow> s # numbered_sections bs | None \<Rightarrow> numbered_sections bs)"
| "numbered_sections (b # bs) = numbered_sections bs"

definition section_numbers :: "document \<Rightarrow> nat list" where
  "section_numbers doc = map fst (numbered_sections doc)"

definition section_titles :: "document \<Rightarrow> string list" where
  "section_titles doc = map snd (numbered_sections doc)"

text \<open>What stands under a heading: the blocks up to the next divider or heading.\<close>

fun is_content :: "block \<Rightarrow> bool" where
  "is_content (Subheader t) = True"
| "is_content (Para t) = True"
| "is_content (Bullet t) = True"
| "is_content (CodeBlock t) = True"
| "is_content (Table rows) = True"
| "is_content b = False"

fun section_body :: "(string \<Rightarrow> bool) \<Rightarrow> document \<Rightarrow> document" where
  "section_body P [] = []"
| "section_body P (Heading h # bs) =
     (if P h then takeWhile is_content bs else section_body P bs)"
| "section_body P (b # bs) = section_body P bs"

definition titled :: "string \<Rightarrow> string \<Rightarrow> bool" where
  "titled t h = (map_option snd (parse_heading h) = Some t)"

fun is_bullet :: "block \<Rightarrow> bool" where
  "is_bullet (Bullet t) = True"
| "is_bullet b = False"

fun is_table :: "block \<Rightarrow> bool" where
  "is_table (Table rows) = True"
| "is_table b = False"

fun is_para :: "block \<Rightarrow> bool" where
  "is_para (Para t) = True"
| "is_para b = False"

fun is_subheader :: "block \<Rightarrow> bool" where
  "is_subheader (Subheader t) = True"
| "is_subheader b = False"

datatype kind =
  KHeaderTable | KDivider | KHeading | KSubheader | KPara | KBullet | KCodeBlock | KTable

fun kind_of :: "block \<Rightarrow> kind" where
  "kind_of (HeaderTable l r) = KHeaderTable"
| "kind_of Divider = KDivider"
| "kind_of (Heading t) = KHeading"
| "kind_of (Subheader t) = KSubheader"
| "kind_of (Para t) = KPara"
| "kind_of (Bullet t) = KBullet"
| "kind_of (CodeBlock t) = KCodeBlock"
| "kind_of (Table rows) = KTable"

text \<open>The four conditions of lines 179, 251, 300 and 316, and the sections they leave.\<close>

definition whats_new_gate :: "sp_args \<Rightarrow> bool" where
  "whats_new_gate a = truthy (whatsNew a)"

definition dependencies_gate :: "sp_args \<Rightarrow> bool" where
  "dependencies_gate a = (complexityScore a > 30 \<and> dict_truthy (dependencies a))"

definition performance_gate :: "sp_args \<Rightarrow> bool" where
  "performance_gate a = (complexityScore a > 50 \<and> truthy (performanceNotes a))"

definition error_handling_gate :: "sp_args \<Rightarrow> bool" where
  "error_handling_gate a = (complexityScore a > 40 \<and> truthy (errorHandling a))"

definition satisfied_gates :: "sp_args \<Rightarrow> nat" where
  "satisfied_gates a =
     of_bool (whats_new_gate a) + of_bool (dependencies_gate a)
       + of_bool (performance_gate a) + of_bool (error_handling_gate a)"

section \<open>Example arguments\<close>

text \<open>A call in the shape of the one under \<^verbatim>\<open>__main__\<close>, with shorter texts.\<close>

definition example_args :: sp_args where
  "example_args =
     \<lparr> spName = PStr ''usp_Customer_Update'', version = PStr ''1.2'',
       createdDate = PStr ''2024-10-01'', createdBy = PStr ''A.Kirby'',
       schema = PStr ''dbo'', objectType = PStr ''Stored Procedure'',
       purpose = PStr ''Updates customer information.'',
       recentChanges =
         [ [(''date'', PStr ''2024-12-03''), (''summary'', PStr ''Added error handling''),
           (''refDoc'', PStr ''DF-0089'')],
          [(''date'', PStr ''2024-10-01''), (''summary'', PStr ''Initial documentation''),
           (''refDoc'', PStr [])]],
       whatsNew = PStr ''Added error handling.'',
       parameters =
         [ [(''name'', PStr ''@CustomerID''), (''type'', PStr ''INT''),
           (''description'', PStr ''Customer identifier''), (''defaultValue'', PNone)],
          [(''name'', PStr ''@Phone''), (''type'', PStr ''VARCHAR(20)''),
           (''description'', PStr ''Phone number''), (''defaultValue'', PStr ''NULL'')]],
       logicFlow =
         Steps [ [(''title'', PStr ''Input Validation''), (''description'', PStr ''Validates.'')],
                [(''title'', PStr ''Begin Transaction''), (''description'', PStr ''Starts.'')],
                [(''title'', PStr ''Commit Transaction''), (''description'', PStr ''Commits.'')]],
       dependencies =
         Some [(''tables'', [''dbo.Customers'', ''dbo.CustomerAudit'']),
               (''procedures'', [''dbo.usp_ValidateEmail''])],
       usageExamples =
         [ [(''title'', PStr ''Update email''), (''code'', PStr ''EXEC dbo.usp_Customer_Update''),
           (''explanation'', PStr ''Updates the email address.'')]],
       performanceNotes = PStr ''Uses a covering index.'',
       errorHandling = PStr ''Returns error code -1.'',
       fullVersionHistory =
         [ [(''version'', PStr ''1.2''), (''date'', PStr ''2024-12-03''),
           (''changedBy'', PStr ''A.Kirby''), (''changes'', PStr ''Added error handling''),
           (''refDoc'', PStr ''DF-1'')],
          [(''version'', PStr ''1.0''), (''date'', PStr ''2024-10-01''),
           (''changedBy'', PStr ''System''), (''changes'', PStr ''Initial documentation''),
           (''refDoc'', PStr [])]],
       complexityScore = 45, isQA = False \<rparr>"

text \<open>A call with every optional argument left out.\<close>

definition minimal_args :: sp_args where
  "minimal_args =
     \<lparr> spName = PStr ''usp_X'', version = PStr ''1.0'',
       createdDate = PStr ''2024-10-01'', createdBy = PStr ''System'',
       schema = PStr ''dbo'', objectType = PStr ''Stored Procedure'',
       purpose = PStr ''Does X.'', recentChanges = [], whatsNew = PNone, parameters = [],
       logicFlow = Narrative (PStr ''Runs one statement.''), dependencies = None,
       usageExamples = [], performanceNotes = PNone, errorHandling = PNone,
       fullVersionHistory = [], complexityScore = 10, isQA = False \<rparr>"

text \<open>Eight recent changes, the newest first; the seventh has no reference document.\<close>

definition eight_changes :: "pydict list" where
  "eight_changes =
     [ [(''date'', PStr ''2024-08-01''), (''summary'', PStr ''change 8''), (''refDoc'', PStr ''DF-8'')],
      [(''date'', PStr ''2024-07-01''), (''summary'', PStr ''change 7''), (''refDoc'', PStr [])],
      [(''date'', PStr ''2024-06-01''), (''summary'', PStr ''change 6''), (''refDoc'', PStr ''DF-6'')],
      [(''date'', PStr ''2024-05-01''), (''summary'', PStr ''change 5''), (''refDoc'', PStr ''DF-5'')],
      [(''date'', PStr ''2024-04-01''), (''summary'', PStr ''change 4''), (''refDoc'', PStr ''DF-4'')],
      [(''date'', PStr ''2024-03-01''), (''summary'', PStr ''change 3''), (''refDoc'', PStr ''DF-3'')],
      [(''date'', PStr ''2024-02-01''), (''summary'', PStr ''change 2''), (''refDoc'', PStr ''DF-2'')],
      [(''date'', PStr ''2024-01-01''), (''summary'', PStr ''change 1''), (''refDoc'', PStr ''DF-1'')]]"

text \<open>What \<^verbatim>\<open>create_sp_doc\<close> builds for the two calls.\<close>

definition example_doc :: document where
  "example_doc =
     [HeaderTable
        [''STORED PROCEDURE'', ''Technical Documentation'', ''dbo.usp_Customer_Update'']
        [(''Version: '', ''v1.2'', RGB 73 80 87), (''Type: '', ''Production'', RGB 73 80 87),
         (''Created: '', ''2024-10-01'', RGB 73 80 87),
         (''Created By: '', ''A.Kirby'', RGB 73 80 87),
         (''Complexity: '', ''45/100'', RGB 73 80 87)],
      Divider,
      Heading ''5 MOST RECENT CHANGES'',
      Bullet ''2024-12-03 - Added error handling (DF-0089)'',
      Bullet ''2024-10-01 - Initial documentation ()'',
      Divider,
      Heading ''1. PURPOSE'', Para ''Updates customer information.'',
      Divider,
      Heading ''2. WHAT'S NEW IN VERSION 1.2'', Subheader ''Changes in This Version:'',
      Para ''Added error handling.'',
      Divider,
      Heading ''3. PARAMETERS'',
      Subheader ''@CustomerID (INT):'', Para ''Customer identifier'',
      Subheader ''@Phone (VARCHAR(20)):'', Para ''Phone number'', Para ''Default: NULL'',
      Divider,
      Heading ''4. LOGIC FLOW'',
      Subheader ''Step 1: Input Validation'', Para ''Validates.'',
      Subheader ''Step 2: Begin Transaction'', Para ''Starts.'',
      Subheader ''Step 3: Commit Transaction'', Para ''Commits.'',
      Divider,
      Heading ''5. DEPENDENCIES'',
      Subheader ''Tables Accessed:'',
      Bullet (bullet_char @ '' dbo.Customers''), Bullet (bullet_char @ '' dbo.CustomerAudit''),
      Subheader ''Stored Procedures Called:'',
      Bullet (bullet_char @ '' dbo.usp_ValidateEmail''),
      Divider,
      Heading ''6. USAGE EXAMPLES'',
      Subheader ''Example 1: Update email'', CodeBlock ''EXEC dbo.usp_Customer_Update'',
      Para ''Updates the email address.'',
      Divider,
      Heading ''7. ERROR HANDLING'', Para ''Returns error code -1.'',
      Divider,
      Heading ''8. FULL VERSION HISTORY'',
      Table [ [''Version'', ''Date'', ''Changed By'', ''Changes''],
             [''v1.2'', ''2024-12-03'', ''A.Kirby'', ''Added error handling (Ref: DF-1)''],
             [''v1.0'', ''2024-10-01'', ''System'', ''Initial documentation'']]]"

definition minimal_doc :: document where
  "minimal_doc =
     [HeaderTable
        [''STORED PROCEDURE'', ''Technical Documentation'', ''dbo.usp_X'']
        [(''Version: '', ''v1.0'', RGB 73 80 87), (''Type: '', ''Production'', RGB 73 80 87),
         (''Created: '', ''2024-10-01'', RGB 73 80 87),
         (''Created By: '', ''System'', RGB 73 80 87),
         (''Complexity: '', ''10/100'', RGB 73 80 87)],
      Divider,
      Heading ''5 MOST RECENT CHANGES'', Para ''No changes recorded yet.'',
      Divider,
      Heading ''1. PURPOSE'', Para ''Does X.'',
      Divider,
      Heading ''2. PARAMETERS'', Para ''No parameters'',
      Divider,
      Heading ''3. LOGIC FLOW'', Para ''Runs one statement.'',
      Divider,
      Heading ''4. USAGE EXAMPLES'',
      Divider,
      Heading ''5. FULL VERSION HISTORY'']"

section \<open>Sequencing, and decimal numbers read back\<close>

lemma andthen_Inl [simp]: "andthen (Inl e) f = Inl e"
  by (simp add: andthen_def)

lemma andthen_Inr [simp]: "andthen (Inr v) f = f v"
  by (simp add: andthen_def)

lemma andthen_eq_Inr: "andthen m f = Inr y \<longleftrightarrow> (\<exists>v. m = Inr v \<and> f v = Inr y)"
  by (cases m) simp_all

lemma digit_char:
  assumes "d < 10"
  shows "is_digit (''0123456789'' ! d)" and "digit_val (''0123456789'' ! d) = d"
proof -
  from assms have "d = 0 \<or> d = 1 \<or> d = 2 \<or> d = 3 \<or> d = 4 \<or> d = 5 \<or> d = 6 \<or> d = 7 \<or> d = 8 \<or> d = 9"
    by arith
  then show "is_digit (''0123456789'' ! d)" and "digit_val (''0123456789'' ! d) = d"
    by (auto simp: is_digit_def digit_val_def)
qed

lemma str_nat_digits: "list_all is_digit (str_nat n)"
proof (induction n rule: str_nat.induct)
  case (1 n)
  show ?case
  proof (cases "n < 10")
    case True
    then show ?thesis by (subst str_nat.simps) (simp add: digit_char)
  next
    case False
    then show ?thesis using 1 by (subst str_nat.simps) (simp add: digit_char)
  qed
qed

lemma str_nat_nonempty: "str_nat n \<noteq> []"
  by (subst str_nat.simps) simp

lemma digits_value_snoc: "digits_value (ds @ [c]) = 10 * digits_value ds + digit_val c"
  by (simp add: digits_value_def)

lemma digits_value_str_nat: "digits_value (str_nat n) = n"
proof (induction n rule: str_nat.induct)
  case (1 n)
  show ?case
  proof (cases "n < 10")
    case True
    then show ?thesis by (subst str_nat.simps) (simp add: digit_char digits_value_def)
  next
    case False
    then show ?thesis using 1
      by (subst str_nat.simps) (simp add: digit_char digits_value_snoc)
  qed
qed

lemma parse_numbered [simp]:
  "parse_heading (str_nat n @ CHR ''.'' # CHR '' '' # t) = Some (n, t)"
proof -
  have nd: "\<not> is_digit CHR ''.''" by (simp add: is_digit_def)
  have all: "\<forall>c\<in>set (str_nat n). is_digit c"
    using str_nat_digits [of n] by (simp add: list_all_iff)
  have tw: "takeWhile is_digit (str_nat n @ CHR ''.'' # CHR '' '' # t) = str_nat n"
    using all nd by (simp add: takeWhile_append2)
  have dw: "dropWhile is_digit (str_nat n @ CHR ''.'' # CHR '' '' # t) = CHR ''.'' # CHR '' '' # t"
    using all nd by (simp add: dropWhile_append2)
  show ?thesis
    by (simp add: parse_heading_def tw dw str_nat_nonempty digits_value_str_nat)
qed

lemma parse_recent [simp]: "parse_heading ''5 MOST RECENT CHANGES'' = None"
  by (simp add: parse_heading_def is_digit_def)

lemma parse_purpose [simp]: "parse_heading ''1. PURPOSE'' = Some (1, ''PURPOSE'')"
  by (simp add: parse_heading_def is_digit_def digits_value_def digit_val_def)

lemma parse_whats_new:
  "parse_heading (''2. WHAT'S NEW IN VERSION '' @ v) = Some (2, ''WHAT'S NEW IN VERSION '' @ v)"
  by (simp add: parse_heading_def is_digit_def digits_value_def digit_val_def)

lemmas parse_whats_new_cons [simp] = parse_whats_new [unfolded append_Cons append_Nil]

section \<open>Every part only appends to the document\<close>

lemma andthen_assoc [simp]:
  "andthen (andthen m f) g = andthen m (\<lambda>x. andthen (f x) g)"
  by (cases m) simp_all

lemma add_paragraph_eq:
  "add_paragraph doc t = (if truthy t then Inr (doc @ [Para (fmt t)]) else Inl IndexError)"
  by (simp add: add_paragraph_def paragraph_runs_def run0_def)

lemma add_bullet_paragraph_eq:
  "add_bullet_paragraph doc t = (if truthy t then Inr (doc @ [Bullet (fmt t)]) else Inl IndexError)"
  by (simp add: add_bullet_paragraph_def paragraph_runs_def run0_def)

lemma for_each_appends:
  assumes "\<And>x b doc. body x (b # doc) = andthen (body x []) (\<lambda>bs. Inr (b # doc @ bs))"
  shows "for_each body xs (b # doc) = andthen (for_each body xs []) (\<lambda>bs. Inr (b # doc @ bs))"
proof (induction xs arbitrary: b doc)
  case Nil
  show ?case by simp
next
  case (Cons x xs)
  show ?case
  proof (cases "body x []")
    case (Inl e)
    then show ?thesis by (simp add: assms)
  next
    case (Inr bs)
    show ?thesis
    proof (cases bs)
      case Nil
      with Inr show ?thesis by (simp add: assms Cons.IH)
    next
      case (Cons c cs)
      with Inr show ?thesis
        by (simp add: assms Cons.IH [of b] Cons.IH [of c])
    qed
  qed
qed

lemma recent_change_appends:
  "recent_change c (b # doc) = andthen (recent_change c []) (\<lambda>bs. Inr (b # doc @ bs))"
  by (simp add: recent_change_def)

lemma parameter_appends:
  "parameter p (b # doc) = andthen (parameter p []) (\<lambda>bs. Inr (b # doc @ bs))"
  by (simp add: parameter_def add_subheader_def add_paragraph_eq Let_def andthen_def split: sum.splits)

lemma logic_step_appends:
  "logic_step s (b # doc) = andthen (logic_step s []) (\<lambda>bs. Inr (b # doc @ bs))"
  by (cases s) (simp add: logic_step_def add_subheader_def add_paragraph_eq Let_def andthen_def split: sum.splits)

lemma dependency_appends:
  "dependency n (b # doc) = andthen (dependency n []) (\<lambda>bs. Inr (b # doc @ bs))"
  by (simp add: dependency_def add_bullet_paragraph_eq)

lemma usage_example_appends:
  "usage_example e (b # doc) = andthen (usage_example e []) (\<lambda>bs. Inr (b # doc @ bs))"
  by (cases e) (simp add: usage_example_def add_subheader_def add_code_block_def add_paragraph_eq Let_def andthen_def split: sum.splits)

lemmas loops_append =
  for_each_appends [of recent_change, OF recent_change_appends]
  for_each_appends [of parameter, OF parameter_appends]
  for_each_appends [of logic_step, OF logic_step_appends]
  for_each_appends [of dependency, OF dependency_appends]
  for_each_appends [of usage_example, OF usage_example_appends]

lemma recent_changes_part_appends:
  "recent_changes_part cs (b # doc) =
     andthen (recent_changes_part cs []) (\<lambda>bs. Inr (b # doc @ bs))"
  by (simp add: recent_changes_part_def add_heading_def add_paragraph_eq loops_append Let_def)

lemma purpose_part_appends:
  "purpose_part qa t (b # doc) = andthen (purpose_part qa t []) (\<lambda>bs. Inr (b # doc @ bs))"
  by (cases t) (simp_all add: purpose_part_def add_heading_def add_paragraph_eq Let_def)

lemma whats_new_part_appends:
  "whats_new_part w v (b # doc) =
     andthen (whats_new_part w v []) (\<lambda>(bs, n). Inr (b # doc @ bs, n))"
  by (simp add: whats_new_part_def add_heading_def add_subheader_def add_divider_def
      add_paragraph_eq Let_def)

lemma parameters_part_appends:
  "parameters_part n ps (b # doc) =
     andthen (parameters_part n ps []) (\<lambda>bs. Inr (b # doc @ bs))"
  by (simp add: parameters_part_def add_heading_def add_paragraph_eq loops_append Let_def)

lemma logic_flow_part_appends:
  "logic_flow_part n lf (b # doc) =
     andthen (logic_flow_part n lf []) (\<lambda>bs. Inr (b # doc @ bs))"
  by (cases lf) (simp_all add: logic_flow_part_def add_heading_def add_paragraph_eq loops_append Let_def)

lemma dependency_list_appends:
  "dependency_list k t deps (b # doc) =
     andthen (dependency_list k t deps []) (\<lambda>bs. Inr (b # doc @ bs))"
  by (simp add: dependency_list_def add_subheader_def loops_append)

lemma dependencies_part_appends:
  "dependencies_part s deps n (b # doc) =
     andthen (dependencies_part s deps n []) (\<lambda>(bs, n). Inr (b # doc @ bs, n))"
  by (simp add: dependencies_part_def add_heading_def add_divider_def Let_def
      dependency_list_appends)

lemma usage_examples_part_appends:
  "usage_examples_part n es (b # doc) =
     andthen (usage_examples_part n es []) (\<lambda>bs. Inr (b # doc @ bs))"
  by (simp add: usage_examples_part_def add_heading_def loops_append Let_def)

lemma prose_part_appends:
  "prose_part g title t n (b # doc) =
     andthen (prose_part g title t n []) (\<lambda>(bs, n). Inr (b # doc @ bs, n))"
  by (simp add: prose_part_def add_heading_def add_divider_def add_paragraph_eq Let_def)

lemma history_part_appends:
  "history_part n h (b # doc) = andthen (history_part n h []) (\<lambda>bs. Inr (b # doc @ bs))"
  by (simp add: history_part_def add_heading_def Let_def)

lemmas parts_append =
  recent_changes_part_appends purpose_part_appends whats_new_part_appends
  parameters_part_appends logic_flow_part_appends dependencies_part_appends
  usage_examples_part_appends prose_part_appends history_part_appends

lemma create_sp_doc_parts:
  "create_sp_doc a =
     andthen (recent_changes_part (recentChanges a) []) (\<lambda>rc.
     andthen (purpose_part (isQA a) (purpose a) []) (\<lambda>pu.
     andthen (whats_new_part (whatsNew a) (version a) []) (\<lambda>(wn, n1).
     andthen (parameters_part n1 (parameters a) []) (\<lambda>ps.
     andthen (logic_flow_part (n1 + 1) (logicFlow a) []) (\<lambda>lf.
     andthen (dependencies_part (complexityScore a) (dependencies a) (n1 + 2) []) (\<lambda>(dp, n2).
     andthen (usage_examples_part n2 (usageExamples a) []) (\<lambda>ue.
     andthen (prose_part (complexityScore a > 50) ''PERFORMANCE NOTES'' (performanceNotes a)
                (n2 + 1) []) (\<lambda>(pn, n3).
     andthen (prose_part (complexityScore a > 40) ''ERROR HANDLING'' (errorHandling a)
                n3 []) (\<lambda>(eh, n4).
     andthen (history_part n4 (fullVersionHistory a) []) (\<lambda>hi.
       Inr (header_table a # Divider # rc @ Divider # pu @ Divider # wn @ ps @ Divider # lf
              @ Divider # dp @ ue @ Divider # pn @ eh @ hi)))))))))))"
  unfolding create_sp_doc_def Let_def add_divider_def
  by (simp add: parts_append split_def)

section \<open>What the loops and the parts append\<close>

lemma andthen_Inr_right [simp]: "andthen m Inr = m"
  by (cases m) simp_all

lemma for_each_from_empty:
  assumes "\<And>x b doc. body x (b # doc) = andthen (body x []) (\<lambda>bs. Inr (b # doc @ bs))"
  shows "for_each body xs doc = andthen (for_each body xs []) (\<lambda>bs. Inr (doc @ bs))"
proof (cases doc)
  case Nil
  then show ?thesis by simp
next
  case (Cons b rest)
  then show ?thesis using for_each_appends [of body xs b rest, OF assms] by simp
qed

lemma for_each_blocks:
  assumes "\<And>x b doc. body x (b # doc) = andthen (body x []) (\<lambda>bs. Inr (b # doc @ bs))"
  shows "for_each body xs [] = Inr bs \<longleftrightarrow>
           (\<exists>bss. list_all2 (\<lambda>x b. body x [] = Inr b) xs bss \<and> bs = concat bss)"
proof (induction xs arbitrary: bs)
  case Nil
  show ?case by auto
next
  case (Cons x xs)
  show ?case
  proof (cases "body x []")
    case (Inl e)
    then show ?thesis by (simp add: list_all2_Cons1)
  next
    case (Inr b)
    have "for_each body (x # xs) [] = andthen (for_each body xs []) (\<lambda>bs. Inr (b @ bs))"
      using Inr for_each_from_empty [of body xs b, OF assms] by simp
    then show ?thesis
      using Inr Cons.IH by (auto simp: andthen_eq_Inr list_all2_Cons1)
  qed
qed

lemmas recent_loop = for_each_blocks [of recent_change, OF recent_change_appends]
lemmas parameter_loop = for_each_blocks [of parameter, OF parameter_appends]
lemmas logic_loop = for_each_blocks [of logic_step, OF logic_step_appends]
lemmas dependency_loop = for_each_blocks [of dependency, OF dependency_appends]
lemmas usage_loop = for_each_blocks [of usage_example, OF usage_example_appends]

lemma concat_content:
  assumes "list_all2 R xs bss" and "\<And>x bs. R x bs \<Longrightarrow> list_all is_content bs"
  shows "list_all is_content (concat bss)"
  using assms by (induction rule: list_all2_induct) simp_all

lemma recent_change_blocks:
  "recent_change c [] = Inr bs \<longleftrightarrow>
     (\<exists>d s r. getitem c ''date'' = Inr d \<and> getitem c ''summary'' = Inr s
        \<and> getitem c ''refDoc'' = Inr r
        \<and> bs = [Bullet (fmt d @ '' - '' @ fmt s @ '' ('' @ fmt r @ '')'')])"
  by (auto simp: recent_change_def andthen_eq_Inr)

lemma parameter_content: "parameter p [] = Inr bs \<Longrightarrow> list_all is_content bs"
  by (auto simp: parameter_def andthen_eq_Inr add_subheader_def add_paragraph_eq Let_def
      split: if_splits)

lemma logic_step_blocks:
  "logic_step (i, s) [] = Inr bs \<longleftrightarrow>
     (\<exists>t p. getitem s ''title'' = Inr t \<and> getitem s ''description'' = Inr p \<and> truthy p
        \<and> bs = [Subheader (''Step '' @ str_nat i @ '': '' @ fmt t), Para (fmt p)])"
  by (auto simp: logic_step_def andthen_eq_Inr add_subheader_def add_paragraph_eq Let_def
      split: if_splits)

lemma usage_example_content: "usage_example e [] = Inr bs \<Longrightarrow> list_all is_content bs"
  by (cases e) (auto simp: usage_example_def andthen_eq_Inr add_subheader_def add_code_block_def
      add_paragraph_eq Let_def split: if_splits)

lemma dependency_content: "dependency n [] = Inr bs \<Longrightarrow> list_all is_content bs"
  by (auto simp: dependency_def add_bullet_paragraph_eq split: if_splits)

lemma dependency_total: "\<exists>bs. for_each dependency names [] = Inr bs"
proof -
  have "list_all2 (\<lambda>x b. dependency x [] = Inr b) names
          (map (\<lambda>n. [Bullet (bullet_char @ '' '' @ n)]) names)"
    by (simp add: list_all2_map2 list_all2_same dependency_def add_bullet_paragraph_eq bullet_char_def)
  then show ?thesis using dependency_loop by blast
qed

lemma recent_change_content: "recent_change c [] = Inr bs \<Longrightarrow> list_all is_content bs"
  by (auto simp: recent_change_blocks)

lemma logic_step_content: "logic_step s [] = Inr bs \<Longrightarrow> list_all is_content bs"
  by (cases s) (auto simp: logic_step_blocks)

lemma recent_changes_part_shape:
  assumes "recent_changes_part cs [] = Inr rc"
  shows "\<exists>body. rc = Heading ''5 MOST RECENT CHANGES'' # body
    \<and> list_all is_content body
    \<and> (cs = [] \<longrightarrow> body = [Para ''No changes recorded yet.''])
    \<and> (cs \<noteq> [] \<longrightarrow> for_each recent_change (take 5 cs) [] = Inr body)"
proof (cases "cs = []")
  case True
  with assms have "rc = Heading ''5 MOST RECENT CHANGES'' # [Para ''No changes recorded yet.'']"
    by (simp add: recent_changes_part_def add_heading_def add_paragraph_eq)
  with True show ?thesis by simp
next
  case False
  with assms obtain body where b: "for_each recent_change (take 5 cs) [] = Inr body"
    and rc: "rc = Heading ''5 MOST RECENT CHANGES'' # body"
    by (auto simp: recent_changes_part_def add_heading_def loops_append andthen_eq_Inr)
  from b obtain bss where "list_all2 (\<lambda>x b. recent_change x [] = Inr b) (take 5 cs) bss"
    and "body = concat bss"
    using recent_loop by blast
  then have "list_all is_content body"
    using concat_content [of _ "take 5 cs" bss] recent_change_content by blast
  with False b rc show ?thesis by simp
qed

lemma purpose_part_shape:
  "purpose_part qa t [] = Inr pu \<longleftrightarrow>
     (if qa then \<exists>s. t = PStr s \<and> pu = [Heading ''1. PURPOSE'', Para (qa_purpose_intro @ s)]
      else truthy t \<and> pu = [Heading ''1. PURPOSE'', Para (fmt t)])"
  by (cases t) (auto simp: purpose_part_def add_heading_def add_paragraph_eq qa_purpose_intro_def)

lemma whats_new_part_shape:
  "whats_new_part w v [] =
     Inr (if truthy w
          then ([Heading (''2. WHAT'S NEW IN VERSION '' @ fmt v),
                 Subheader ''Changes in This Version:'', Para (fmt w), Divider], 3)
          else ([], 2))"
  by (simp add: whats_new_part_def add_heading_def add_subheader_def add_divider_def
      add_paragraph_eq)

lemma parameters_part_shape:
  assumes "parameters_part n ps [] = Inr x"
  shows "\<exists>body. x = Heading (str_nat n @ ''. PARAMETERS'') # body
    \<and> list_all is_content body"
proof (cases "ps = []")
  case True
  with assms have "x = Heading (str_nat n @ ''. PARAMETERS'') # [Para ''No parameters'']"
    by (auto simp: parameters_part_def add_heading_def add_paragraph_eq)
  then show ?thesis by simp
next
  case False
  with assms obtain body where b: "for_each parameter ps [] = Inr body"
    and x: "x = Heading (str_nat n @ ''. PARAMETERS'') # body"
    by (auto simp: parameters_part_def add_heading_def loops_append andthen_eq_Inr)
  from b obtain bss where "list_all2 (\<lambda>x b. parameter x [] = Inr b) ps bss"
    and "body = concat bss"
    using parameter_loop by blast
  then have "list_all is_content body"
    using concat_content [of _ ps bss] parameter_content by blast
  with x show ?thesis by simp
qed

lemma logic_flow_part_shape:
  assumes "logic_flow_part n lf [] = Inr x"
  shows "\<exists>body. x = Heading (str_nat n @ ''. LOGIC FLOW'') # body
    \<and> list_all is_content body
    \<and> (\<forall>t. lf = Narrative t \<longrightarrow> truthy t \<and> body = [Para (fmt t)])
    \<and> (\<forall>steps. lf = Steps steps \<longrightarrow>
          for_each logic_step (enumerate 1 steps) [] = Inr body)"
proof (cases lf)
  case (Narrative t)
  with assms have "truthy t \<and> x = Heading (str_nat n @ ''. LOGIC FLOW'') # [Para (fmt t)]"
    by (simp add: logic_flow_part_def add_heading_def add_paragraph_eq split: if_splits)
  with Narrative show ?thesis by simp
next
  case (Steps steps)
  with assms obtain body where b: "for_each logic_step (enumerate 1 steps) [] = Inr body"
    and x: "x = Heading (str_nat n @ ''. LOGIC FLOW'') # body"
    by (auto simp: logic_flow_part_def add_heading_def loops_append andthen_eq_Inr)
  from b obtain bss where "list_all2 (\<lambda>x b. logic_step x [] = Inr b) (enumerate 1 steps) bss"
    and "body = concat bss"
    using logic_loop by blast
  then have "list_all is_content body"
    using concat_content [of _ "enumerate 1 steps" bss] logic_step_content by blast
  with Steps b x show ?thesis by simp
qed

lemma dependency_list_shape:
  obtains body where "dependency_list k t deps [] = Inr body" and "list_all is_content body"
proof (cases "has_key k deps \<and> the (map_of deps k) \<noteq> []")
  case False
  then have "dependency_list k t deps [] = Inr []"
    by (auto simp: dependency_list_def)
  with that show ?thesis by simp
next
  case True
  obtain bs where b: "for_each dependency (the (map_of deps k)) [] = Inr bs"
    using dependency_total by blast
  then obtain bss where "list_all2 (\<lambda>x b. dependency x [] = Inr b) (the (map_of deps k)) bss"
    and "bs = concat bss"
    using dependency_loop by blast
  then have "list_all is_content bs"
    using concat_content [of _ "the (map_of deps k)" bss] dependency_content by blast
  moreover have "dependency_list k t deps [] = Inr (Subheader t # bs)"
    using True b by (simp add: dependency_list_def add_subheader_def loops_append)
  ultimately show ?thesis using that by simp
qed

lemma dependencies_part_shape:
  obtains body where
    "dependencies_part s deps n [] =
       Inr (if s > 30 \<and> dict_truthy deps
            then (Heading (str_nat n @ ''. DEPENDENCIES'') # body @ [Divider], n + 1)
            else ([], n))"
    and "list_all is_content body"
proof -
  obtain tb where tb: "dependency_list ''tables'' ''Tables Accessed:'' (the deps) [] = Inr tb"
    and tbc: "list_all is_content tb"
    using dependency_list_shape by blast
  obtain pb where pb: "dependency_list ''procedures'' ''Stored Procedures Called:'' (the deps) [] = Inr pb"
    and pbc: "list_all is_content pb"
    using dependency_list_shape by blast
  have "dependencies_part s deps n [] =
       Inr (if s > 30 \<and> dict_truthy deps
            then (Heading (str_nat n @ ''. DEPENDENCIES'') # (tb @ pb) @ [Divider], n + 1)
            else ([], n))"
    using tb pb
    by (simp add: dependencies_part_def add_heading_def add_divider_def dependency_list_appends)
  moreover have "list_all is_content (tb @ pb)" using tbc pbc by simp
  ultimately show ?thesis using that by blast
qed

lemma usage_examples_part_shape:
  assumes "usage_examples_part n es [] = Inr x"
  shows "\<exists>body. x = Heading (str_nat n @ ''. USAGE EXAMPLES'') # body
    \<and> list_all is_content body
    \<and> for_each usage_example (enumerate 1 es) [] = Inr body"
proof -
  from assms obtain body where b: "for_each usage_example (enumerate 1 es) [] = Inr body"
    and x: "x = Heading (str_nat n @ ''. USAGE EXAMPLES'') # body"
    by (cases "es = []")
      (auto simp: usage_examples_part_def add_heading_def loops_append andthen_eq_Inr)
  from b obtain bss where "list_all2 (\<lambda>x b. usage_example x [] = Inr b) (enumerate 1 es) bss"
    and "body = concat bss"
    using usage_loop by blast
  then have "list_all is_content body"
    using concat_content [of _ "enumerate 1 es" bss] usage_example_content by blast
  with b x show ?thesis by simp
qed

lemma prose_part_shape:
  "prose_part g title t n [] =
     Inr (if g \<and> truthy t
          then ([Heading (str_nat n @ ''. '' @ title), Para (fmt t), Divider], n + 1)
          else ([], n))"
  by (simp add: prose_part_def add_heading_def add_divider_def add_paragraph_eq)

lemma history_part_shape:
  "history_part n h [] = Inr hi \<longleftrightarrow>
     (if h = [] then hi = [Heading (str_nat n @ ''. FULL VERSION HISTORY'')]
      else \<exists>rows. history_rows h = Inr rows
             \<and> hi = [Heading (str_nat n @ ''. FULL VERSION HISTORY''),
                     Table ([''Version'', ''Date'', ''Changed By'', ''Changes''] # rows)])"
  by (auto simp: history_part_def add_heading_def andthen_eq_Inr)

section \<open>The layout of a returned document\<close>

lemma create_sp_doc_layout:
  assumes "create_sp_doc a = Inr d"
  shows "\<exists>rcb pb psb lfb dpb ueb hib n1 n2 n3 n4.
    n1 = (if whats_new_gate a then 3 else 2)
    \<and> n2 = (if dependencies_gate a then n1 + 3 else n1 + 2)
    \<and> n3 = (if performance_gate a then n2 + 2 else n2 + 1)
    \<and> n4 = (if error_handling_gate a then n3 + 1 else n3)
    \<and> list_all is_content rcb \<and> list_all is_content psb \<and> list_all is_content lfb
    \<and> list_all is_content dpb \<and> list_all is_content ueb
    \<and> (recentChanges a = [] \<longrightarrow> rcb = [Para ''No changes recorded yet.''])
    \<and> (recentChanges a \<noteq> [] \<longrightarrow>
          for_each recent_change (take 5 (recentChanges a)) [] = Inr rcb)
    \<and> (if isQA a then \<exists>s. purpose a = PStr s \<and> pb = qa_purpose_intro @ s
        else truthy (purpose a) \<and> pb = fmt (purpose a))
    \<and> (\<forall>t. logicFlow a = Narrative t \<longrightarrow> truthy t \<and> lfb = [Para (fmt t)])
    \<and> (\<forall>steps. logicFlow a = Steps steps \<longrightarrow>
          for_each logic_step (enumerate 1 steps) [] = Inr lfb)
    \<and> for_each usage_example (enumerate 1 (usageExamples a)) [] = Inr ueb
    \<and> (if fullVersionHistory a = [] then hib = []
        else \<exists>rows. history_rows (fullVersionHistory a) = Inr rows
            \<and> hib = [Table ([''Version'', ''Date'', ''Changed By'', ''Changes''] # rows)])
    \<and> d = header_table a # Divider # Heading ''5 MOST RECENT CHANGES'' # rcb
         @ Divider # Heading ''1. PURPOSE'' # Para pb # Divider
         # (if whats_new_gate a
            then [Heading (''2. WHAT'S NEW IN VERSION '' @ fmt (version a)),
                  Subheader ''Changes in This Version:'', Para (fmt (whatsNew a)), Divider]
            else [])
         @ Heading (str_nat n1 @ ''. PARAMETERS'') # psb
         @ Divider # Heading (str_nat (n1 + 1) @ ''. LOGIC FLOW'') # lfb
         @ Divider
         # (if dependencies_gate a
            then Heading (str_nat (n1 + 2) @ ''. DEPENDENCIES'') # dpb @ [Divider]
            else [])
         @ Heading (str_nat n2 @ ''. USAGE EXAMPLES'') # ueb
         @ Divider
         # (if performance_gate a
            then [Heading (str_nat (n2 + 1) @ ''. PERFORMANCE NOTES''),
                  Para (fmt (performanceNotes a)), Divider]
            else [])
         @ (if error_handling_gate a
            then [Heading (str_nat n3 @ ''. ERROR HANDLING''),
                  Para (fmt (errorHandling a)), Divider]
            else [])
         @ Heading (str_nat n4 @ ''. FULL VERSION HISTORY'') # hib"
proof -
  define n1 :: nat where "n1 = (if whats_new_gate a then 3 else 2)"
  define n2 where "n2 = (if dependencies_gate a then n1 + 3 else n1 + 2)"
  define n3 where "n3 = (if performance_gate a then n2 + 2 else n2 + 1)"
  define n4 where "n4 = (if error_handling_gate a then n3 + 1 else n3)"
  define wn where "wn = (if whats_new_gate a
            then [Heading (''2. WHAT'S NEW IN VERSION '' @ fmt (version a)),
                  Subheader ''Changes in This Version:'', Para (fmt (whatsNew a)), Divider]
            else [])"
  have wn: "whats_new_part (whatsNew a) (version a) [] = Inr (wn, n1)"
    by (simp add: whats_new_part_shape wn_def n1_def whats_new_gate_def)
  obtain dpb where dp0: "dependencies_part (complexityScore a) (dependencies a) (n1 + 2) [] =
       Inr (if complexityScore a > 30 \<and> dict_truthy (dependencies a)
            then (Heading (str_nat (n1 + 2) @ ''. DEPENDENCIES'') # dpb @ [Divider], n1 + 2 + 1)
            else ([], n1 + 2))"
    and dpc: "list_all is_content dpb"
    using dependencies_part_shape by blast
  define dp where "dp = (if dependencies_gate a
            then Heading (str_nat (n1 + 2) @ ''. DEPENDENCIES'') # dpb @ [Divider]
            else [])"
  have dp: "dependencies_part (complexityScore a) (dependencies a) (n1 + 2) [] = Inr (dp, n2)"
    unfolding dp_def n2_def dependencies_gate_def using dp0 by (auto split: if_splits)
  define pn where "pn = (if performance_gate a
            then [Heading (str_nat (n2 + 1) @ ''. PERFORMANCE NOTES''),
                  Para (fmt (performanceNotes a)), Divider]
            else [])"
  have pn: "prose_part (complexityScore a > 50) ''PERFORMANCE NOTES'' (performanceNotes a)
              (n2 + 1) [] = Inr (pn, n3)"
    by (simp add: prose_part_shape pn_def n3_def performance_gate_def)
  define eh where "eh = (if error_handling_gate a
            then [Heading (str_nat n3 @ ''. ERROR HANDLING''),
                  Para (fmt (errorHandling a)), Divider]
            else [])"
  have eh: "prose_part (complexityScore a > 40) ''ERROR HANDLING'' (errorHandling a) n3 []
              = Inr (eh, n4)"
    by (simp add: prose_part_shape eh_def n4_def error_handling_gate_def)
  have "create_sp_doc a =
     andthen (recent_changes_part (recentChanges a) []) (\<lambda>rc.
     andthen (purpose_part (isQA a) (purpose a) []) (\<lambda>pu.
     andthen (parameters_part n1 (parameters a) []) (\<lambda>ps.
     andthen (logic_flow_part (n1 + 1) (logicFlow a) []) (\<lambda>lf.
     andthen (usage_examples_part n2 (usageExamples a) []) (\<lambda>ue.
     andthen (history_part n4 (fullVersionHistory a) []) (\<lambda>hi.
       Inr (header_table a # Divider # rc @ Divider # pu @ Divider # wn @ ps @ Divider # lf
              @ Divider # dp @ ue @ Divider # pn @ eh @ hi)))))))"
    by (simp only: create_sp_doc_parts wn dp pn eh andthen_Inr prod.case)
  with assms obtain rc pu ps lf ue hi where
    rc: "recent_changes_part (recentChanges a) [] = Inr rc"
    and pu: "purpose_part (isQA a) (purpose a) [] = Inr pu"
    and ps: "parameters_part n1 (parameters a) [] = Inr ps"
    and lf: "logic_flow_part (n1 + 1) (logicFlow a) [] = Inr lf"
    and ue: "usage_examples_part n2 (usageExamples a) [] = Inr ue"
    and hi: "history_part n4 (fullVersionHistory a) [] = Inr hi"
    and d: "d = header_table a # Divider # rc @ Divider # pu @ Divider # wn @ ps @ Divider # lf
              @ Divider # dp @ ue @ Divider # pn @ eh @ hi"
    by (auto simp only: andthen_eq_Inr)
  from recent_changes_part_shape [OF rc]
  obtain rcb where rcb: "rc = Heading ''5 MOST RECENT CHANGES'' # rcb"
    "list_all is_content rcb"
    "recentChanges a = [] \<longrightarrow> rcb = [Para ''No changes recorded yet.'']"
    "recentChanges a \<noteq> [] \<longrightarrow> for_each recent_change (take 5 (recentChanges a)) [] = Inr rcb"
    by blast
  from pu obtain pb where pb: "pu = [Heading ''1. PURPOSE'', Para pb]"
    "if isQA a then \<exists>s. purpose a = PStr s \<and> pb = qa_purpose_intro @ s
     else truthy (purpose a) \<and> pb = fmt (purpose a)"
    by (auto simp: purpose_part_shape split: if_splits)
  from parameters_part_shape [OF ps]
  obtain psb where psb: "ps = Heading (str_nat n1 @ ''. PARAMETERS'') # psb"
    "list_all is_content psb"
    by blast
  from logic_flow_part_shape [OF lf]
  obtain lfb where lfb: "lf = Heading (str_nat (n1 + 1) @ ''. LOGIC FLOW'') # lfb"
    "list_all is_content lfb"
    "\<forall>t. logicFlow a = Narrative t \<longrightarrow> truthy t \<and> lfb = [Para (fmt t)]"
    "\<forall>steps. logicFlow a = Steps steps \<longrightarrow>
       for_each logic_step (enumerate 1 steps) [] = Inr lfb"
    by blast
  from usage_examples_part_shape [OF ue]
  obtain ueb where ueb: "ue = Heading (str_nat n2 @ ''. USAGE EXAMPLES'') # ueb"
    "list_all is_content ueb"
    "for_each usage_example (enumerate 1 (usageExamples a)) [] = Inr ueb"
    by blast
  from hi obtain hib where hib: "hi = Heading (str_nat n4 @ ''. FULL VERSION HISTORY'') # hib"
    "if fullVersionHistory a = [] then hib = []
     else \<exists>rows. history_rows (fullVersionHistory a) = Inr rows
            \<and> hib = [Table ([''Version'', ''Date'', ''Changed By'', ''Changes''] # rows)]"
    by (auto simp: history_part_shape split: if_splits)
  have "d = header_table a # Divider # Heading ''5 MOST RECENT CHANGES'' # rcb
         @ Divider # Heading ''1. PURPOSE'' # Para pb # Divider
         # wn
         @ Heading (str_nat n1 @ ''. PARAMETERS'') # psb
         @ Divider # Heading (str_nat (n1 + 1) @ ''. LOGIC FLOW'') # lfb
         @ Divider
         # dp
         @ Heading (str_nat n2 @ ''. USAGE EXAMPLES'') # ueb
         @ Divider
         # pn
         @ eh
         @ Heading (str_nat n4 @ ''. FULL VERSION HISTORY'') # hib"
    by (simp add: d rcb(1) pb(1) psb(1) lfb(1) ueb(1) hib(1))
  then show ?thesis
    unfolding wn_def dp_def pn_def eh_def
    using n1_def n2_def n3_def n4_def rcb(2-4) pb(2) psb(2) lfb(2-4) ueb(2,3) hib(2) dpc
    by blast
qed

lemma numbered_sections_append:
  "numbered_sections (xs @ ys) = numbered_sections xs @ numbered_sections ys"
  by (induction xs rule: numbered_sections.induct) (simp_all split: option.splits)

lemma numbered_sections_content:
  "list_all is_content xs \<Longrightarrow> numbered_sections xs = []"
  by (induction xs rule: numbered_sections.induct) simp_all

lemma numbered_sections_content_append [simp]:
  "list_all is_content xs \<Longrightarrow> numbered_sections (xs @ ys) = numbered_sections ys"
  by (simp add: numbered_sections_append numbered_sections_content)

lemma create_sp_doc_sections:
  assumes "create_sp_doc a = Inr d"
  shows "numbered_sections d =
     (1, ''PURPOSE'')
     # (if whats_new_gate a then [(2, ''WHAT'S NEW IN VERSION '' @ fmt (version a))] else [])
     @ [(2 + of_bool (whats_new_gate a), ''PARAMETERS''),
        (3 + of_bool (whats_new_gate a), ''LOGIC FLOW'')]
     @ (if dependencies_gate a then [(4 + of_bool (whats_new_gate a), ''DEPENDENCIES'')] else [])
     @ [(4 + of_bool (whats_new_gate a) + of_bool (dependencies_gate a), ''USAGE EXAMPLES'')]
     @ (if performance_gate a
        then [(5 + of_bool (whats_new_gate a) + of_bool (dependencies_gate a),
               ''PERFORMANCE NOTES'')] else [])
     @ (if error_handling_gate a
        then [(5 + of_bool (whats_new_gate a) + of_bool (dependencies_gate a)
                 + of_bool (performance_gate a), ''ERROR HANDLING'')] else [])
     @ [(5 + satisfied_gates a, ''FULL VERSION HISTORY'')]"
proof -
  from create_sp_doc_layout [OF assms]
  obtain rcb pb psb lfb dpb ueb hib n1 n2 n3 n4 where
    n: "n1 = (if whats_new_gate a then 3 else 2)"
       "n2 = (if dependencies_gate a then n1 + 3 else n1 + 2)"
       "n3 = (if performance_gate a then n2 + 2 else n2 + 1)"
       "n4 = (if error_handling_gate a then n3 + 1 else n3)"
    and c: "list_all is_content rcb" "list_all is_content psb" "list_all is_content lfb"
       "list_all is_content dpb" "list_all is_content ueb"
    and h: "if fullVersionHistory a = [] then hib = []
        else \<exists>rows. history_rows (fullVersionHistory a) = Inr rows
            \<and> hib = [Table ([''Version'', ''Date'', ''Changed By'', ''Changes''] # rows)]"
    and d: "d = header_table a # Divider # Heading ''5 MOST RECENT CHANGES'' # rcb
         @ Divider # Heading ''1. PURPOSE'' # Para pb # Divider
         # (if whats_new_gate a
            then [Heading (''2. WHAT'S NEW IN VERSION '' @ fmt (version a)),
                  Subheader ''Changes in This Version:'', Para (fmt (whatsNew a)), Divider]
            else [])
         @ Heading (str_nat n1 @ ''. PARAMETERS'') # psb
         @ Divider # Heading (str_nat (n1 + 1) @ ''. LOGIC FLOW'') # lfb
         @ Divider
         # (if dependencies_gate a
            then Heading (str_nat (n1 + 2) @ ''. DEPENDENCIES'') # dpb @ [Divider]
            else [])
         @ Heading (str_nat n2 @ ''. USAGE EXAMPLES'') # ueb
         @ Divider
         # (if performance_gate a
            then [Heading (str_nat (n2 + 1) @ ''. PERFORMANCE NOTES''),
                  Para (fmt (performanceNotes a)), Divider]
            else [])
         @ (if error_handling_gate a
            then [Heading (str_nat n3 @ ''. ERROR HANDLING''),
                  Para (fmt (errorHandling a)), Divider]
            else [])
         @ Heading (str_nat n4 @ ''. FULL VERSION HISTORY'') # hib"
    by blast
  have hc: "list_all is_content hib" using h by (auto split: if_splits)
  have hs: "numbered_sections hib = []" using hc by (rule numbered_sections_content)
  have hdr: "numbered_sections (header_table a # xs) = numbered_sections xs" for xs
    by (simp add: header_table_def Let_def)
  show ?thesis
    unfolding d hdr
    using c hs
    by (simp add: n satisfied_gates_def numbered_sections_append numbered_sections_content)
qed

section \<open>Which sections are emitted, and under which numbers\<close>

text \<open>
  C1, as the code has it. Whenever \<^verbatim>\<open>create_sp_doc\<close> returns a document, the
  Dependencies heading is in it if and only if \<^verbatim>\<open>complexityScore > 30\<close> and the
  \<^verbatim>\<open>dependencies\<close> dictionary is truthy, that is, given and holding at least one key.
  What its \<^verbatim>\<open>tables\<close> and \<^verbatim>\<open>procedures\<close> lists hold plays no part: they only decide
  which sub-blocks stand under the heading.
\<close>

theorem dependencies_section_gate:
  assumes "create_sp_doc a = Inr d"
  shows "''DEPENDENCIES'' \<in> set (section_titles d)
           \<longleftrightarrow> complexityScore a > 30 \<and> dict_truthy (dependencies a)"
  unfolding section_titles_def create_sp_doc_sections [OF assms]
  by (auto simp: dependencies_gate_def)

text \<open>
  C7. Whenever \<^verbatim>\<open>create_sp_doc\<close> returns a document, the Performance Notes heading is in
  it if and only if \<^verbatim>\<open>complexityScore > 50\<close> and \<^verbatim>\<open>performanceNotes\<close> is non-empty, and the
  Error Handling heading if and only if \<^verbatim>\<open>complexityScore > 40\<close> and \<^verbatim>\<open>errorHandling\<close> is
  non-empty. The comparisons are strict, so 50 and 40 leave the sections out and 51 and
  41 bring them in.
\<close>

theorem prose_section_gates:
  assumes "create_sp_doc a = Inr d"
  shows "(''PERFORMANCE NOTES'' \<in> set (section_titles d)
            \<longleftrightarrow> complexityScore a > 50 \<and> truthy (performanceNotes a))
       \<and> (''ERROR HANDLING'' \<in> set (section_titles d)
            \<longleftrightarrow> complexityScore a > 40 \<and> truthy (errorHandling a))"
  unfolding section_titles_def create_sp_doc_sections [OF assms]
  by (auto simp: performance_gate_def error_handling_gate_def)

text \<open>
  C3, as the code has it. Whenever \<^verbatim>\<open>create_sp_doc\<close> returns a document, the numbers of
  its section headings are 1, 2, ..., K in this order, where K is 5 plus the number of
  satisfied conditions: Purpose, Parameters, Logic Flow, Usage Examples and Full Version
  History are always numbered, What's New, Dependencies, Performance Notes and Error
  Handling when their condition holds. The title block and the heading of the recent
  changes carry no number.
\<close>

theorem section_numbers_contiguous:
  assumes "create_sp_doc a = Inr d"
  shows "section_numbers d = [1..<Suc (5 + satisfied_gates a)]"
  unfolding section_numbers_def create_sp_doc_sections [OF assms]
  by (cases "whats_new_gate a"; cases "dependencies_gate a"; cases "performance_gate a";
      cases "error_handling_gate a")
     (simp_all add: satisfied_gates_def upt_rec)

lemma section_body_content_skip [simp]:
  "list_all is_content xs \<Longrightarrow> section_body P (xs @ ys) = section_body P ys"
proof (induction xs)
  case Nil
  show ?case by simp
next
  case (Cons b xs)
  then show ?case by (cases b) simp_all
qed

lemma takeWhile_content [simp]:
  "list_all is_content xs \<Longrightarrow> takeWhile is_content (xs @ Divider # ys) = xs"
  by (induction xs) simp_all

lemma titled_numbered [simp]:
  "titled t (str_nat n @ CHR ''.'' # CHR '' '' # t') = (t' = t)"
  by (simp add: titled_def)

lemma titled_fixed [simp]:
  "titled t ''5 MOST RECENT CHANGES'' = False"
  "titled t ''1. PURPOSE'' = (''PURPOSE'' = t)"
  "titled t (''2. WHAT'S NEW IN VERSION '' @ v) = (''WHAT'S NEW IN VERSION '' @ v = t)"
  by (simp_all add: titled_def parse_whats_new)

lemmas titled_whats_new_cons [simp] = titled_fixed(3) [unfolded append_Cons append_Nil]

lemma concat_singletons:
  "list_all2 (\<lambda>x bs. \<exists>b. bs = [b] \<and> Q x b) xs bss \<Longrightarrow> list_all2 Q xs (concat bss)"
  by (induction rule: list_all2_induct) auto

lemma recent_body:
  assumes "create_sp_doc a = Inr d"
  shows "\<exists>body. section_body ((=) ''5 MOST RECENT CHANGES'') d = body
     \<and> (recentChanges a = [] \<longrightarrow> body = [Para ''No changes recorded yet.''])
     \<and> (recentChanges a \<noteq> [] \<longrightarrow>
          for_each recent_change (take 5 (recentChanges a)) [] = Inr body)"
proof -
  from create_sp_doc_layout [OF assms]
  obtain rcb rest where c: "list_all is_content rcb"
    and r: "recentChanges a = [] \<longrightarrow> rcb = [Para ''No changes recorded yet.'']"
       "recentChanges a \<noteq> [] \<longrightarrow>
          for_each recent_change (take 5 (recentChanges a)) [] = Inr rcb"
    and d: "d = header_table a # Divider # Heading ''5 MOST RECENT CHANGES'' # rcb
         @ Divider # rest"
    by blast
  have "section_body ((=) ''5 MOST RECENT CHANGES'') d = rcb"
    using c by (simp add: d header_table_def)
  with r show ?thesis by simp
qed


section \<open>What stands under the headings\<close>


lemma bullets_only:
  "list_all2 (\<lambda>c b. \<exists>t. b = Bullet t) cs bs \<Longrightarrow> filter is_bullet bs = bs"
  by (induction rule: list_all2_induct) auto

text \<open>
  C6. Whenever \<^verbatim>\<open>create_sp_doc\<close> returns a document, the bullets under the heading of
  the recent changes are \<open>min 5 (length recentChanges)\<close> many, the i-th made from the i-th
  entry as \<^verbatim>\<open>"{date} - {summary} ({refDoc})"\<close>; an empty \<^verbatim>\<open>refDoc\<close> leaves the
  parentheses in place, empty.
\<close>

theorem recent_changes_bullets:
  assumes "create_sp_doc a = Inr d"
  shows "let bs = filter is_bullet (section_body ((=) ''5 MOST RECENT CHANGES'') d) in
           length bs = min 5 (length (recentChanges a))
         \<and> (\<forall>i<length bs. \<exists>dt sm rf.
               getitem (recentChanges a ! i) ''date'' = Inr dt
             \<and> getitem (recentChanges a ! i) ''summary'' = Inr sm
             \<and> getitem (recentChanges a ! i) ''refDoc'' = Inr rf
             \<and> bs ! i = Bullet (fmt dt @ '' - '' @ fmt sm @ '' ('' @ fmt rf @ '')'')
             \<and> (rf = PStr [] \<longrightarrow> bs ! i = Bullet (fmt dt @ '' - '' @ fmt sm @ '' ()'')))"
proof (cases "recentChanges a = []")
  case True
  with recent_body [OF assms] show ?thesis by simp
next
  case False
  define body where "body = section_body ((=) ''5 MOST RECENT CHANGES'') d"
  define Q where "Q = (\<lambda>c b. \<exists>dt sm rf.
               getitem c ''date'' = Inr dt
             \<and> getitem c ''summary'' = Inr sm
             \<and> getitem c ''refDoc'' = Inr rf
             \<and> b = Bullet (fmt dt @ '' - '' @ fmt sm @ '' ('' @ fmt rf @ '')''))"
  from False recent_body [OF assms]
  have "for_each recent_change (take 5 (recentChanges a)) [] = Inr body"
    by (simp add: body_def)
  then obtain bss where
    bss: "list_all2 (\<lambda>x b. recent_change x [] = Inr b) (take 5 (recentChanges a)) bss"
    and body: "body = concat bss"
    using recent_loop by blast
  from bss have "list_all2 (\<lambda>x bs. \<exists>b. bs = [b] \<and> Q x b) (take 5 (recentChanges a)) bss"
    by (rule list_all2_mono) (auto simp: recent_change_blocks Q_def)
  then have all: "list_all2 Q (take 5 (recentChanges a)) body"
    unfolding body by (rule concat_singletons)
  then have "list_all2 (\<lambda>c b. \<exists>t. b = Bullet t) (take 5 (recentChanges a)) body"
    by (rule list_all2_mono) (auto simp: Q_def)
  then have bs: "filter is_bullet body = body" by (rule bullets_only)
  have len: "length body = min 5 (length (recentChanges a))"
    using list_all2_lengthD [OF all] by (simp add: min.commute)
  have "Q (recentChanges a ! i) (body ! i)" if "i < length body" for i
    using list_all2_nthD [OF all, of i] that len by simp
  then show ?thesis
    unfolding Let_def body_def [symmetric] bs using len by (fastforce simp: Q_def)
qed

section \<open>The two example calls\<close>

lemma example_run: "create_sp_doc example_args = Inr example_doc"
  by code_simp

lemma minimal_run: "create_sp_doc minimal_args = Inr minimal_doc"
  by code_simp

lemma example_sections:
  "numbered_sections example_doc =
     [(1, ''PURPOSE''), (2, ''WHAT'S NEW IN VERSION 1.2''), (3, ''PARAMETERS''),
      (4, ''LOGIC FLOW''), (5, ''DEPENDENCIES''), (6, ''USAGE EXAMPLES''),
      (7, ''ERROR HANDLING''), (8, ''FULL VERSION HISTORY'')]"
  by code_simp

lemma minimal_sections:
  "numbered_sections minimal_doc =
     [(1, ''PURPOSE''), (2, ''PARAMETERS''), (3, ''LOGIC FLOW''), (4, ''USAGE EXAMPLES''),
      (5, ''FULL VERSION HISTORY'')]"
  by code_simp

theorem dependencies_section_gate_witness:
  "create_sp_doc example_args = Inr example_doc
   \<and> ''DEPENDENCIES'' \<in> set (section_titles example_doc)
   \<and> complexityScore example_args > 30 \<and> dict_truthy (dependencies example_args)"
  using dependencies_section_gate [OF example_run] example_run
  by (simp add: example_args_def)

theorem dependencies_empty_lists_counterexample:
  "complexityScore (minimal_args\<lparr>complexityScore := 31,
       dependencies := Some [(''tables'', []), (''procedures'', [])]\<rparr>) > 30
   \<and> create_sp_doc (minimal_args\<lparr>complexityScore := 31,
       dependencies := Some [(''tables'', []), (''procedures'', [])]\<rparr>) =
     Inr [HeaderTable
        [''STORED PROCEDURE'', ''Technical Documentation'', ''dbo.usp_X'']
        [(''Version: '', ''v1.0'', RGB 73 80 87), (''Type: '', ''Production'', RGB 73 80 87),
         (''Created: '', ''2024-10-01'', RGB 73 80 87),
         (''Created By: '', ''System'', RGB 73 80 87),
         (''Complexity: '', ''31/100'', RGB 73 80 87)],
      Divider,
      Heading ''5 MOST RECENT CHANGES'', Para ''No changes recorded yet.'',
      Divider,
      Heading ''1. PURPOSE'', Para ''Does X.'',
      Divider,
      Heading ''2. PARAMETERS'', Para ''No parameters'',
      Divider,
      Heading ''3. LOGIC FLOW'', Para ''Runs one statement.'',
      Divider,
      Heading ''4. DEPENDENCIES'',
      Divider,
      Heading ''5. USAGE EXAMPLES'',
      Divider,
      Heading ''6. FULL VERSION HISTORY'']"
  by code_simp

theorem section_numbers_contiguous_witness:
  "create_sp_doc example_args = Inr example_doc
   \<and> satisfied_gates example_args = 3
   \<and> section_numbers example_doc = [1, 2, 3, 4, 5, 6, 7, 8]"
  using section_numbers_contiguous [OF example_run] example_run
  by (simp add: example_args_def satisfied_gates_def whats_new_gate_def dependencies_gate_def
      performance_gate_def error_handling_gate_def upt_rec)

theorem seven_sections_counterexample:
  "create_sp_doc minimal_args = Inr minimal_doc
   \<and> satisfied_gates minimal_args = 0
   \<and> section_numbers minimal_doc = [1, 2, 3, 4, 5]
   \<and> section_numbers minimal_doc \<noteq> [1..<Suc (7 + satisfied_gates minimal_args)]"
  using minimal_run
  by (simp add: section_numbers_def minimal_sections minimal_args_def satisfied_gates_def
      whats_new_gate_def dependencies_gate_def performance_gate_def error_handling_gate_def
      upt_rec)

theorem prose_section_gates_witness:
  "\<not> isl (create_sp_doc (example_args\<lparr>complexityScore := 50\<rparr>))
   \<and> ''PERFORMANCE NOTES''
        \<notin> set (section_titles (projr (create_sp_doc (example_args\<lparr>complexityScore := 50\<rparr>))))
   \<and> \<not> isl (create_sp_doc (example_args\<lparr>complexityScore := 51\<rparr>))
   \<and> ''PERFORMANCE NOTES''
        \<in> set (section_titles (projr (create_sp_doc (example_args\<lparr>complexityScore := 51\<rparr>))))
   \<and> \<not> isl (create_sp_doc (example_args\<lparr>complexityScore := 40\<rparr>))
   \<and> ''ERROR HANDLING''
        \<notin> set (section_titles (projr (create_sp_doc (example_args\<lparr>complexityScore := 40\<rparr>))))
   \<and> \<not> isl (create_sp_doc (example_args\<lparr>complexityScore := 41\<rparr>))
   \<and> ''ERROR HANDLING''
        \<in> set (section_titles (projr (create_sp_doc (example_args\<lparr>complexityScore := 41\<rparr>))))"
proof -
  have ok: "\<not> isl (create_sp_doc (example_args\<lparr>complexityScore := 50\<rparr>))"
    "\<not> isl (create_sp_doc (example_args\<lparr>complexityScore := 51\<rparr>))"
    "\<not> isl (create_sp_doc (example_args\<lparr>complexityScore := 40\<rparr>))"
    "\<not> isl (create_sp_doc (example_args\<lparr>complexityScore := 41\<rparr>))"
    by code_simp+
  have run: "create_sp_doc (example_args\<lparr>complexityScore := sc\<rparr>)
               = Inr (projr (create_sp_doc (example_args\<lparr>complexityScore := sc\<rparr>)))"
    if "\<not> isl (create_sp_doc (example_args\<lparr>complexityScore := sc\<rparr>))" for sc
    using that by simp
  show ?thesis
    using ok prose_section_gates [OF run [OF ok(1)]] prose_section_gates [OF run [OF ok(2)]]
      prose_section_gates [OF run [OF ok(3)]] prose_section_gates [OF run [OF ok(4)]]
    by (simp add: example_args_def)
qed

section \<open>The version history\<close>

lemma history_rows_all:
  "history_rows h = Inr rows \<longleftrightarrow> list_all2 (\<lambda>e row. history_row e = Inr row) h rows"
proof (induction h arbitrary: rows)
  case Nil
  show ?case by auto
next
  case (Cons e h)
  show ?case by (cases "history_row e") (auto simp: andthen_eq_Inr Cons.IH list_all2_Cons1)
qed



lemma history_body:
  assumes "create_sp_doc a = Inr d"
  shows "\<exists>hib. section_body (titled ''FULL VERSION HISTORY'') d = hib
     \<and> (if fullVersionHistory a = [] then hib = []
        else \<exists>rows. history_rows (fullVersionHistory a) = Inr rows
            \<and> hib = [Table ([''Version'', ''Date'', ''Changed By'', ''Changes''] # rows)])
     \<and> (if hib = []
        then last d = Heading (str_nat (5 + satisfied_gates a) @ ''. FULL VERSION HISTORY'')
        else last d = last hib
           \<and> last (butlast d)
               = Heading (str_nat (5 + satisfied_gates a) @ ''. FULL VERSION HISTORY''))"
proof -
  from create_sp_doc_layout [OF assms]
  obtain rcb pb psb lfb dpb ueb hib n1 n2 n3 n4 wn dp pn eh where
    n: "n1 = (if whats_new_gate a then 3 else 2)"
       "n2 = (if dependencies_gate a then n1 + 3 else n1 + 2)"
       "n3 = (if performance_gate a then n2 + 2 else n2 + 1)"
       "n4 = (if error_handling_gate a then n3 + 1 else n3)"
    and c: "list_all is_content rcb" "list_all is_content psb" "list_all is_content lfb"
       "list_all is_content dpb" "list_all is_content ueb"
    and h: "if fullVersionHistory a = [] then hib = []
        else \<exists>rows. history_rows (fullVersionHistory a) = Inr rows
            \<and> hib = [Table ([''Version'', ''Date'', ''Changed By'', ''Changes''] # rows)]"
    and wn: "wn = (if whats_new_gate a
            then [Heading (''2. WHAT'S NEW IN VERSION '' @ fmt (version a)),
                  Subheader ''Changes in This Version:'', Para (fmt (whatsNew a)), Divider]
            else [])"
    and dp: "dp = (if dependencies_gate a
            then Heading (str_nat (n1 + 2) @ ''. DEPENDENCIES'') # dpb @ [Divider]
            else [])"
    and pn: "pn = (if performance_gate a
            then [Heading (str_nat (n2 + 1) @ ''. PERFORMANCE NOTES''),
                  Para (fmt (performanceNotes a)), Divider]
            else [])"
    and eh: "eh = (if error_handling_gate a
            then [Heading (str_nat n3 @ ''. ERROR HANDLING''),
                  Para (fmt (errorHandling a)), Divider]
            else [])"
    and d: "d = header_table a # Divider # Heading ''5 MOST RECENT CHANGES'' # rcb
         @ Divider # Heading ''1. PURPOSE'' # Para pb # Divider
         # wn
         @ Heading (str_nat n1 @ ''. PARAMETERS'') # psb
         @ Divider # Heading (str_nat (n1 + 1) @ ''. LOGIC FLOW'') # lfb
         @ Divider
         # dp
         @ Heading (str_nat n2 @ ''. USAGE EXAMPLES'') # ueb
         @ Divider
         # pn
         @ eh
         @ Heading (str_nat n4 @ ''. FULL VERSION HISTORY'') # hib"
    by blast
  let ?P = "titled ''FULL VERSION HISTORY''"
  have skip: "section_body ?P (wn @ ys) = section_body ?P ys"
    "section_body ?P (dp @ ys) = section_body ?P ys"
    "section_body ?P (pn @ ys) = section_body ?P ys"
    "section_body ?P (eh @ ys) = section_body ?P ys" for ys
    using c by (simp_all add: wn dp pn eh)
  have n4: "n4 = 5 + satisfied_gates a"
    by (simp add: n satisfied_gates_def)
  have hc: "list_all is_content hib" using h by (auto split: if_splits)
  have body: "section_body ?P d = hib"
    unfolding d using c hc by (simp add: header_table_def skip takeWhile_eq_all_conv list_all_iff)
  have l: "last d = (if hib = [] then Heading (str_nat n4 @ ''. FULL VERSION HISTORY'')
                     else last hib)"
    unfolding d by simp
  have "last (butlast d) = Heading (str_nat n4 @ ''. FULL VERSION HISTORY'')" if "hib \<noteq> []"
  proof -
    from that h obtain t where "hib = [t]" by (auto split: if_splits)
    then show ?thesis unfolding d by (simp add: butlast_append)
  qed
  with body h l show ?thesis by (simp add: n4)
qed

text \<open>
  C4, as the code has it. Whenever \<^verbatim>\<open>create_sp_doc\<close> returns a document, Full Version
  History is its last numbered heading. For a non-empty \<^verbatim>\<open>fullVersionHistory\<close> the table
  is the last block of the document, right behind that heading: a row with the labels
  Version, Date, Changed By, Changes and then one row per entry, in the order given.
  For an empty \<^verbatim>\<open>fullVersionHistory\<close> no table is built: the heading is the last block and
  nothing stands under it.
\<close>

theorem version_history_last:
  assumes "create_sp_doc a = Inr d"
  shows "last (numbered_sections d) = (5 + satisfied_gates a, ''FULL VERSION HISTORY'')
     \<and> (if fullVersionHistory a = []
        then section_body (titled ''FULL VERSION HISTORY'') d = []
           \<and> last d = Heading (str_nat (5 + satisfied_gates a) @ ''. FULL VERSION HISTORY'')
        else \<exists>rows.
             section_body (titled ''FULL VERSION HISTORY'') d
               = [Table ([''Version'', ''Date'', ''Changed By'', ''Changes''] # rows)]
           \<and> last d = Table ([''Version'', ''Date'', ''Changed By'', ''Changes''] # rows)
           \<and> last (butlast d)
               = Heading (str_nat (5 + satisfied_gates a) @ ''. FULL VERSION HISTORY'')
           \<and> length rows = length (fullVersionHistory a)
           \<and> (\<forall>i<length (fullVersionHistory a).
                 history_row (fullVersionHistory a ! i) = Inr (rows ! i)))"
proof -
  have sec: "last (numbered_sections d) = (5 + satisfied_gates a, ''FULL VERSION HISTORY'')"
    unfolding create_sp_doc_sections [OF assms] by simp
  from history_body [OF assms] obtain hib where
    body: "section_body (titled ''FULL VERSION HISTORY'') d = hib"
    and h: "if fullVersionHistory a = [] then hib = []
        else \<exists>rows. history_rows (fullVersionHistory a) = Inr rows
            \<and> hib = [Table ([''Version'', ''Date'', ''Changed By'', ''Changes''] # rows)]"
    and l: "if hib = []
        then last d = Heading (str_nat (5 + satisfied_gates a) @ ''. FULL VERSION HISTORY'')
        else last d = last hib
           \<and> last (butlast d)
               = Heading (str_nat (5 + satisfied_gates a) @ ''. FULL VERSION HISTORY'')"
    by blast
  show ?thesis
  proof (cases "fullVersionHistory a = []")
    case True
    with sec body h l show ?thesis by simp
  next
    case False
    with h obtain rows where rows: "history_rows (fullVersionHistory a) = Inr rows"
      and hib: "hib = [Table ([''Version'', ''Date'', ''Changed By'', ''Changes''] # rows)]"
      by auto
    from rows have all: "list_all2 (\<lambda>e row. history_row e = Inr row) (fullVersionHistory a) rows"
      by (simp add: history_rows_all)
    have "length rows = length (fullVersionHistory a)"
      using list_all2_lengthD [OF all] by simp
    moreover have "\<forall>i<length (fullVersionHistory a).
                 history_row (fullVersionHistory a ! i) = Inr (rows ! i)"
      using list_all2_nthD [OF all] by simp
    ultimately show ?thesis using False sec body hib l by simp
  qed
qed

theorem version_history_last_witness:
  "create_sp_doc example_args = Inr example_doc
   \<and> last (numbered_sections example_doc) = (8, ''FULL VERSION HISTORY'')
   \<and> fullVersionHistory example_args \<noteq> []
   \<and> last example_doc =
       Table [ [''Version'', ''Date'', ''Changed By'', ''Changes''],
              [''v1.2'', ''2024-12-03'', ''A.Kirby'', ''Added error handling (Ref: DF-1)''],
              [''v1.0'', ''2024-10-01'', ''System'', ''Initial documentation'']]
   \<and> last (butlast example_doc) = Heading ''8. FULL VERSION HISTORY''"
  using version_history_last [OF example_run] example_run
  by (simp add: example_sections) (simp add: example_doc_def example_args_def)

theorem empty_history_counterexample:
  "fullVersionHistory minimal_args = []
   \<and> create_sp_doc minimal_args = Inr minimal_doc
   \<and> last minimal_doc = Heading ''5. FULL VERSION HISTORY''
   \<and> filter is_table minimal_doc = []"
  using minimal_run by (simp add: minimal_args_def minimal_doc_def)



section \<open>The QA flag\<close>

lemma kind_of_header [simp]: "kind_of (header_table a) = KHeaderTable"
  by (simp add: header_table_def Let_def)

lemma numbered_sections_header [simp]:
  "numbered_sections (header_table a # bs) = numbered_sections bs"
  by (simp add: header_table_def Let_def)

text \<open>
  C9, as the code has it. Whenever \<^verbatim>\<open>create_sp_doc\<close> returns a document without the QA
  flag, it returns one with the flag too, and the two have the same kinds of block in the
  same order and the same numbered sections. They differ in two blocks only: the title
  block, where the first title line and the value and colour of the Type line of the
  metadata panel change, and the paragraph of the Purpose section, which in QA mode
  starts with the fixed sentence.
\<close>

theorem qa_mode_structure:
  assumes "create_sp_doc (a\<lparr>isQA := False\<rparr>) = Inr d1"
  shows "\<exists>d2 pre post p.
      create_sp_doc (a\<lparr>isQA := True\<rparr>) = Inr d2
    \<and> d1 = header_table (a\<lparr>isQA := False\<rparr>) # pre @ Heading ''1. PURPOSE'' # Para p # post
    \<and> d2 = header_table (a\<lparr>isQA := True\<rparr>) # pre
             @ Heading ''1. PURPOSE'' # Para (qa_purpose_intro @ p) # post
    \<and> map kind_of d1 = map kind_of d2
    \<and> numbered_sections d1 = numbered_sections d2
    \<and> title_lines (header_table (a\<lparr>isQA := True\<rparr>))
        = (title_lines (header_table (a\<lparr>isQA := False\<rparr>)))[0 := ''QA STORED PROCEDURE'']
    \<and> metadata_lines (header_table (a\<lparr>isQA := True\<rparr>))
        = (metadata_lines (header_table (a\<lparr>isQA := False\<rparr>)))
            [1 := (''Type: '', ''QA Procedure'', RGB 40 167 69)]"
proof -
  from assms obtain rc pu wn n1 ps lf dp n2 ue pn n3 eh n4 hi where
    rc: "recent_changes_part (recentChanges a) [] = Inr rc"
    and pu: "purpose_part False (purpose a) [] = Inr pu"
    and wn: "whats_new_part (whatsNew a) (version a) [] = Inr (wn, n1)"
    and ps: "parameters_part n1 (parameters a) [] = Inr ps"
    and lf: "logic_flow_part (Suc n1) (logicFlow a) [] = Inr lf"
    and dp: "dependencies_part (complexityScore a) (dependencies a) (Suc (Suc n1)) []
               = Inr (dp, n2)"
    and ue: "usage_examples_part n2 (usageExamples a) [] = Inr ue"
    and pn: "prose_part (complexityScore a > 50) ''PERFORMANCE NOTES'' (performanceNotes a)
               (Suc n2) [] = Inr (pn, n3)"
    and eh: "prose_part (complexityScore a > 40) ''ERROR HANDLING'' (errorHandling a) n3 []
               = Inr (eh, n4)"
    and hi: "history_part n4 (fullVersionHistory a) [] = Inr hi"
    and d1: "d1 = header_table (a\<lparr>isQA := False\<rparr>) # Divider # rc @ Divider # pu @ Divider
               # wn @ ps @ Divider # lf @ Divider # dp @ ue @ Divider # pn @ eh @ hi"
    by (auto simp: create_sp_doc_parts andthen_eq_Inr)
  from pu obtain p where p: "purpose a = PStr p"
    and pu': "pu = [Heading ''1. PURPOSE'', Para p]"
    by (cases "purpose a") (auto simp: purpose_part_shape)
  have qa: "purpose_part True (purpose a) [] = Inr [Heading ''1. PURPOSE'', Para (qa_purpose_intro @ p)]"
    by (simp add: purpose_part_shape p)
  define pre where "pre = Divider # rc @ [Divider]"
  define post where "post = Divider # wn @ ps @ Divider # lf @ Divider # dp @ ue
                              @ Divider # pn @ eh @ hi"
  have 1: "d1 = header_table (a\<lparr>isQA := False\<rparr>) # pre @ Heading ''1. PURPOSE'' # Para p # post"
    by (simp add: d1 pu' pre_def post_def)
  have 2: "create_sp_doc (a\<lparr>isQA := True\<rparr>) =
      Inr (header_table (a\<lparr>isQA := True\<rparr>) # pre
             @ Heading ''1. PURPOSE'' # Para (qa_purpose_intro @ p) # post)"
    by (simp add: create_sp_doc_parts rc qa wn ps lf dp ue pn eh hi pre_def post_def)
  have 3: "title_lines (header_table (a\<lparr>isQA := True\<rparr>))
        = (title_lines (header_table (a\<lparr>isQA := False\<rparr>)))[0 := ''QA STORED PROCEDURE'']"
    "metadata_lines (header_table (a\<lparr>isQA := True\<rparr>))
        = (metadata_lines (header_table (a\<lparr>isQA := False\<rparr>)))
            [1 := (''Type: '', ''QA Procedure'', RGB 40 167 69)]"
    by (simp_all add: header_table_def)
  show ?thesis
    apply (rule exI [of _ "header_table (a\<lparr>isQA := True\<rparr>) # pre
             @ Heading ''1. PURPOSE'' # Para (qa_purpose_intro @ p) # post"])
    apply (rule exI [of _ pre])
    apply (rule exI [of _ post])
    apply (rule exI [of _ p])
    using 2 3 apply (simp add: 1 numbered_sections_append)
    done
qed

theorem qa_mode_structure_witness:
  "create_sp_doc (example_args\<lparr>isQA := False\<rparr>) = Inr example_doc
   \<and> map_sum id (map kind_of) (create_sp_doc (example_args\<lparr>isQA := True\<rparr>))
       = Inr (map kind_of example_doc)
   \<and> map_sum id numbered_sections (create_sp_doc (example_args\<lparr>isQA := True\<rparr>))
       = Inr (numbered_sections example_doc)"
proof -
  have run: "create_sp_doc (example_args\<lparr>isQA := False\<rparr>) = Inr example_doc"
    using example_run by (simp add: example_args_def)
  from qa_mode_structure [OF run] run show ?thesis by auto
qed

theorem qa_type_label_counterexample:
  "create_sp_doc (example_args\<lparr>isQA := False\<rparr>) = Inr example_doc
   \<and> metadata_lines (hd example_doc) ! 1 = (''Type: '', ''Production'', RGB 73 80 87)
   \<and> \<not> isl (create_sp_doc (example_args\<lparr>isQA := True\<rparr>))
   \<and> metadata_lines (hd (projr (create_sp_doc (example_args\<lparr>isQA := True\<rparr>)))) ! 1
       = (''Type: '', ''QA Procedure'', RGB 40 167 69)
   \<and> create_sp_doc (minimal_args\<lparr>purpose := PStr []\<rparr>) = Inl IndexError
   \<and> \<not> isl (create_sp_doc (minimal_args\<lparr>purpose := PStr [], isQA := True\<rparr>))"
  by code_simp

section \<open>Errors\<close>


lemma isl_andthen_Inr [simp]: "isl (andthen m (\<lambda>x. Inr (f x))) = isl m"
  by (cases m) simp_all

lemma isl_total_parts [simp]:
  "isl (whats_new_part w v []) = False"
  "isl (dependencies_part sc deps n []) = False"
  "isl (prose_part g title t n []) = False"
proof -
  show "isl (whats_new_part w v []) = False" by (simp add: whats_new_part_shape)
  show "isl (prose_part g title t n []) = False" by (simp add: prose_part_shape)
  obtain body where "dependencies_part sc deps n [] =
       Inr (if sc > 30 \<and> dict_truthy deps
            then (Heading (str_nat n @ ''. DEPENDENCIES'') # body @ [Divider], n + 1)
            else ([], n))"
    using dependencies_part_shape by blast
  then show "isl (dependencies_part sc deps n []) = False" by simp
qed

lemma isl_fallible_parts [simp]:
  "isl (recent_changes_part cs []) = isl (for_each recent_change (take 5 cs) [])"
  "isl (purpose_part qa t []) = (if qa then t = PNone else \<not> truthy t)"
  "isl (parameters_part n ps []) = isl (for_each parameter ps [])"
  "isl (logic_flow_part n lf []) =
     (case lf of Steps steps \<Rightarrow> isl (for_each logic_step (enumerate 1 steps) [])
      | Narrative t \<Rightarrow> \<not> truthy t)"
  "isl (usage_examples_part n es []) = isl (for_each usage_example (enumerate 1 es) [])"
  "isl (history_part n h []) = isl (history_rows h)"
proof -
  show "isl (recent_changes_part cs []) = isl (for_each recent_change (take 5 cs) [])"
    by (simp add: recent_changes_part_def add_heading_def add_paragraph_eq loops_append Let_def)
  show "isl (purpose_part qa t []) = (if qa then t = PNone else \<not> truthy t)"
    by (cases t) (simp_all add: purpose_part_def add_heading_def add_paragraph_eq
        qa_purpose_intro_def Let_def)
  show "isl (parameters_part n ps []) = isl (for_each parameter ps [])"
    by (simp add: parameters_part_def add_heading_def add_paragraph_eq loops_append Let_def)
  show "isl (logic_flow_part n lf []) =
     (case lf of Steps steps \<Rightarrow> isl (for_each logic_step (enumerate 1 steps) [])
      | Narrative t \<Rightarrow> \<not> truthy t)"
    by (cases lf) (simp_all add: logic_flow_part_def add_heading_def add_paragraph_eq
        loops_append Let_def)
  show "isl (usage_examples_part n es []) = isl (for_each usage_example (enumerate 1 es) [])"
    by (simp add: usage_examples_part_def add_heading_def loops_append Let_def)
  show "isl (history_part n h []) = isl (history_rows h)"
    by (cases "h = []") (simp_all add: history_part_def add_heading_def Let_def)
qed





text \<open>
  C10, where the code fails. An \<^verbatim>\<open>explanation\<close> key holding the empty string passes the
  test of line 290, and then line 294 raises IndexError on the run-less paragraph: no
  document is returned. With a non-empty explanation the paragraph is there, without the
  key it is not. A \<^verbatim>\<open>defaultValue\<close> holding the empty string is skipped by the test of
  line 214 and raises nothing.
\<close>

theorem empty_explanation_raises:
  "create_sp_doc (minimal_args\<lparr>usageExamples :=
       [ [(''title'', PStr ''T''), (''code'', PStr ''C''), (''explanation'', PStr [])]]\<rparr>)
     = Inl IndexError
   \<and> map_sum id (section_body (titled ''USAGE EXAMPLES''))
       (create_sp_doc (minimal_args\<lparr>usageExamples :=
          [ [(''title'', PStr ''T''), (''code'', PStr ''C''), (''explanation'', PStr ''E'')]]\<rparr>))
     = Inr [Subheader ''Example 1: T'', CodeBlock ''C'', Para ''E'']
   \<and> map_sum id (section_body (titled ''USAGE EXAMPLES''))
       (create_sp_doc (minimal_args\<lparr>usageExamples :=
          [ [(''title'', PStr ''T''), (''code'', PStr ''C'')]]\<rparr>))
     = Inr [Subheader ''Example 1: T'', CodeBlock ''C'']
   \<and> map_sum id (section_body (titled ''PARAMETERS''))
       (create_sp_doc (minimal_args\<lparr>parameters :=
          [ [(''name'', PStr ''@P''), (''type'', PStr ''INT''), (''description'', PStr ''D''),
            (''defaultValue'', PStr [])]]\<rparr>))
     = Inr [Subheader ''@P (INT):'', Para ''D'']"
  by code_simp

section \<open>The logic flow and the recent changes of the example calls\<close>


theorem recent_changes_bullets_witness:
  "\<not> isl (create_sp_doc (minimal_args\<lparr>recentChanges := eight_changes\<rparr>))
   \<and> length (recentChanges (minimal_args\<lparr>recentChanges := eight_changes\<rparr>)) = 8
   \<and> filter is_bullet (section_body ((=) ''5 MOST RECENT CHANGES'')
        (projr (create_sp_doc (minimal_args\<lparr>recentChanges := eight_changes\<rparr>))))
      = [Bullet ''2024-08-01 - change 8 (DF-8)'', Bullet ''2024-07-01 - change 7 ()'',
         Bullet ''2024-06-01 - change 6 (DF-6)'', Bullet ''2024-05-01 - change 5 (DF-5)'',
         Bullet ''2024-04-01 - change 4 (DF-4)'']"
proof -
  have ok: "\<not> isl (create_sp_doc (minimal_args\<lparr>recentChanges := eight_changes\<rparr>))"
    by code_simp
  then have run: "create_sp_doc (minimal_args\<lparr>recentChanges := eight_changes\<rparr>)
      = Inr (projr (create_sp_doc (minimal_args\<lparr>recentChanges := eight_changes\<rparr>)))"
    by simp
  have len: "length (recentChanges (minimal_args\<lparr>recentChanges := eight_changes\<rparr>)) = 8"
    by (simp add: eight_changes_def)
  have bullets: "filter is_bullet (section_body ((=) ''5 MOST RECENT CHANGES'')
        (projr (create_sp_doc (minimal_args\<lparr>recentChanges := eight_changes\<rparr>))))
      = [Bullet ''2024-08-01 - change 8 (DF-8)'', Bullet ''2024-07-01 - change 7 ()'',
         Bullet ''2024-06-01 - change 6 (DF-6)'', Bullet ''2024-05-01 - change 5 (DF-5)'',
         Bullet ''2024-04-01 - change 4 (DF-4)'']"
    by code_simp
  show ?thesis
    using recent_changes_bullets [OF run] ok len bullets by simp
qed

end
